theory Spec2Isabelle
  imports Complex_Main
begin

section \<open>Python values and exceptions\<close>

text \<open>
  Floating-point tensors are modelled over the reals (no rounding, no NaN or infinity).
  A tensor is one batch row, a list of components; every layer of the networks acts on
  the last dimension only, so a batch is a list of such rows treated independently.
  A raised exception is the \<open>Inl\<close> branch of a sum type; the last four exceptions are
  the error taxonomy of the replay buffer.
\<close>

type_synonym tensor = "real list"

datatype py_error =
    TypeError | AttributeError | ValueError | RuntimeError | NameError
  | InvalidCapacity | InvalidPriority | EmptyBufferSample | UnknownSlot

section \<open>parameters.py\<close>

definition vision_embedding_dim :: nat where
  "vision_embedding_dim = 65"

definition proprioception_dim :: nat where
  "proprioception_dim = 7"

definition action_dim :: nat where
  "action_dim = 7"

section \<open>model.py: the critic\<close>

text \<open>\<open>F.relu\<close>: component-wise maximum with zero.\<close>

definition relu :: "tensor \<Rightarrow> tensor" where
  "relu x = map (\<lambda>v. max 0 v) x"

text \<open>
  \<open>nn.Linear(in_features, out_features)\<close>: a weight matrix with \<open>out_features\<close> rows of
  \<open>in_features\<close> entries and a bias of \<open>out_features\<close> entries. Applying it to an input
  whose last dimension is not \<open>in_features\<close> raises a RuntimeError.
\<close>

record linear =
  in_features :: nat
  out_features :: nat
  weight :: "real list list"
  bias :: "real list"

definition dot :: "real list \<Rightarrow> real list \<Rightarrow> real" where
  "dot w x = sum_list (map (\<lambda>(a, b). a * b) (zip w x))"

definition Linear_forward :: "linear \<Rightarrow> tensor \<Rightarrow> py_error + tensor" where
  "Linear_forward l x =
     (if length x = in_features l
      then Inr (map (\<lambda>(w, b). dot w x + b) (zip (weight l) (bias l)))
      else Inl RuntimeError)"

text \<open>The shapes \<open>nn.Linear\<close> allocates at construction.\<close>

definition linear_wf :: "nat \<Rightarrow> nat \<Rightarrow> linear \<Rightarrow> bool" where
  "linear_wf i out l =
     (in_features l = i \<and> out_features l = out \<and> length (weight l) = out \<and>
      list_all (\<lambda>row. length row = i) (weight l) \<and> length (bias l) = out)"

text \<open>Sequencing of calls that may raise: the first exception is propagated.\<close>

definition bind_exn :: "py_error + 'a \<Rightarrow> ('a \<Rightarrow> py_error + 'b) \<Rightarrow> py_error + 'b" where
  "bind_exn m f = (case m of Inl e \<Rightarrow> Inl e | Inr v \<Rightarrow> f v)"

record critic =
  fc1 :: linear
  fc2 :: linear
  fc3 :: linear
  fc4 :: linear
  fc5 :: linear

text \<open>\<open>Critic.__init__(layer_size=1024)\<close>: the five layers and their shapes.\<close>

definition default_layer_size :: nat where
  "default_layer_size = 1024"

definition Critic_in_features :: nat where
  "Critic_in_features = vision_embedding_dim + proprioception_dim + action_dim"

definition Critic_wf :: "nat \<Rightarrow> critic \<Rightarrow> bool" where
  "Critic_wf layer_size c =
     (linear_wf Critic_in_features layer_size (fc1 c) \<and>
      linear_wf layer_size layer_size (fc2 c) \<and>
      linear_wf layer_size layer_size (fc3 c) \<and>
      linear_wf layer_size layer_size (fc4 c) \<and>
      linear_wf layer_size 1 (fc5 c))"

text \<open>
  \<open>Critic.forward\<close>: concatenate the three inputs, then four linear layers, each followed
  by a ReLU. The value returned is the ReLU of \<open>fc4\<close>; \<open>fc5\<close> is not applied.
\<close>

definition Critic_forward :: "critic \<Rightarrow> tensor \<Rightarrow> tensor \<Rightarrow> tensor \<Rightarrow> py_error + tensor" where
  "Critic_forward c vision_embed proprioception action =
     (let x = vision_embed @ proprioception @ action in
      bind_exn (Linear_forward (fc1 c) x) (\<lambda>x1.
      bind_exn (Linear_forward (fc2 c) (relu x1)) (\<lambda>x2.
      bind_exn (Linear_forward (fc3 c) (relu x2)) (\<lambda>x3.
      bind_exn (Linear_forward (fc4 c) (relu x3)) (\<lambda>x4.
      Inr (relu x4))))))"

section \<open>train.py: the TD target arithmetic\<close>

text \<open>\<open>AgentTrainer.__init__(self, gamma=0.95, tau=0.01)\<close>.\<close>

definition default_gamma :: real where
  "default_gamma = 0.95"

definition default_tau :: real where
  "default_tau = 0.01"

text \<open>
  Line 138 of \<open>td_target\<close>, for one batch row: \<open>reward.unsqueeze(1)\<close> and
  \<open>done.unsqueeze(1)\<close> broadcast one scalar each over the components of \<open>next_q\<close>.
  \<open>bootstrap_term\<close> is the summand \<open>gamma * next_q * (1. - done)\<close>.
\<close>

definition bootstrap_term :: "real \<Rightarrow> tensor \<Rightarrow> real \<Rightarrow> tensor" where
  "bootstrap_term gamma next_q done = map (\<lambda>q. gamma * q * (1 - done)) next_q"

definition td_target_value :: "real \<Rightarrow> real \<Rightarrow> tensor \<Rightarrow> real \<Rightarrow> tensor" where
  "td_target_value gamma reward next_q done =
     map (\<lambda>b. reward + b) (bootstrap_term gamma next_q done)"

text \<open>A small critic (\<open>layer_size = 2\<close>) on which the definitions can be evaluated.\<close>

definition example_critic :: critic where
  "example_critic =
     \<lparr>fc1 = \<lparr>in_features = Critic_in_features, out_features = 2,
              weight = replicate 2 (replicate Critic_in_features 0), bias = [1, -1]\<rparr>,
      fc2 = \<lparr>in_features = 2, out_features = 2, weight = [[1, 0], [0, 1]], bias = [0, 0]\<rparr>,
      fc3 = \<lparr>in_features = 2, out_features = 2, weight = [[1, 0], [0, 1]], bias = [0, 0]\<rparr>,
      fc4 = \<lparr>in_features = 2, out_features = 2, weight = [[2, 0], [0, 1]], bias = [0, -3]\<rparr>,
      fc5 = \<lparr>in_features = 2, out_features = 1, weight = [[1, 1]], bias = [0]\<rparr>\<rparr>"


section \<open>model.py: the mixture-of-logistics sample\<close>

text \<open>\<open>torch.clamp(x, lo, hi)\<close> and \<open>np.clip(a, lo, hi)\<close>, component-wise.\<close>

definition clamp :: "real \<Rightarrow> real \<Rightarrow> tensor \<Rightarrow> tensor" where
  "clamp lo hi x = map (\<lambda>v. min (max v lo) hi) x"

definition np_clip :: "tensor \<Rightarrow> real \<Rightarrow> real \<Rightarrow> tensor" where
  "np_clip a a_min a_max = map (\<lambda>v. min a_max (max v a_min)) a"

text \<open>
  \<open>LogisticMixture.sample\<close>: the argument is the value drawn by
  \<open>self.mixture_dist.sample(sample_shape)\<close>, a random draw of the library.
\<close>

definition LogisticMixture_sample :: "tensor \<Rightarrow> tensor" where
  "LogisticMixture_sample drawn = (let x = drawn; x = clamp (-1) 1 x in x)"

section \<open>train.py: Python values and calls\<close>

text \<open>
  The objects the trainer handles: torch tensors, numpy arrays, the distribution objects
  returned by \<open>PlanProposal.forward\<close> (\<open>Normal\<close>) and \<open>Actor.forward\<close>
  (\<open>LogisticMixture\<close>, with its weightings, means and scales), floats, integers,
  booleans, an
  \<open>nn.Module\<close> instance such as \<open>torch.nn.MSELoss(...)\<close>, tuples, and \<open>None\<close>.
\<close>

datatype pyval =
    Tensor tensor
  | NDArray tensor
  | Normal tensor tensor
  | LogisticMixture tensor tensor tensor
  | PyFloat real
  | PyInt int
  | PyBool bool
  | Module
  | Tuple "pyval list"
  | NoneValue


text \<open>
  A parameter of a \<open>def\<close>: its name and its default, if it has one. Binding a call's
  positional and keyword arguments to a signature follows Python: positional arguments
  fill the parameters from the left, one too many is a TypeError; the remaining
  parameters take their keyword argument, else their default, else the call is a
  TypeError (missing required argument); a keyword that names no remaining parameter is
  a TypeError.
\<close>

record param =
  pname :: string
  pdefault :: "pyval option"

type_synonym bindings = "(string \<times> pyval) list"

fun bind_positional :: "param list \<Rightarrow> pyval list \<Rightarrow> py_error + bindings \<times> param list" where
  "bind_positional ps [] = Inr ([], ps)"
| "bind_positional [] (a # as) = Inl TypeError"
| "bind_positional (p # ps) (a # as) =
     bind_exn (bind_positional ps as) (\<lambda>(bs, rest). Inr ((pname p, a) # bs, rest))"

fun bind_keywords :: "param list \<Rightarrow> bindings \<Rightarrow> py_error + bindings" where
  "bind_keywords [] kws = (if kws = [] then Inr [] else Inl TypeError)"
| "bind_keywords (p # ps) kws =
     (case map_of kws (pname p) of
        Some v \<Rightarrow>
          bind_exn (bind_keywords ps (filter (\<lambda>kv. fst kv \<noteq> pname p) kws))
            (\<lambda>bs. Inr ((pname p, v) # bs))
      | None \<Rightarrow>
          (case pdefault p of
             Some d \<Rightarrow> bind_exn (bind_keywords ps kws) (\<lambda>bs. Inr ((pname p, d) # bs))
           | None \<Rightarrow> Inl TypeError))"

definition bind_args :: "param list \<Rightarrow> pyval list \<Rightarrow> bindings \<Rightarrow> py_error + bindings" where
  "bind_args sig args kws =
     bind_exn (bind_positional sig args) (\<lambda>(bs, rest).
     bind_exn (bind_keywords rest kws) (\<lambda>cs. Inr (bs @ cs)))"

text \<open>Reading a bound parameter inside a function body.\<close>

definition arg :: "bindings \<Rightarrow> string \<Rightarrow> py_error + pyval" where
  "arg bs n = (case map_of bs n of Some v \<Rightarrow> Inr v | None \<Rightarrow> Inl NameError)"

text \<open>
  Unpacking \<open>x1, ..., xn = value\<close>: the value is iterated (a tuple gives its elements, a
  tensor or an array its components; the other objects are not iterable, a TypeError),
  and it is a ValueError unless there are exactly as many items as targets.
\<close>

fun iterate :: "pyval \<Rightarrow> py_error + pyval list" where
  "iterate (Tuple vs) = Inr vs"
| "iterate (Tensor t) = Inr (map (\<lambda>x. Tensor [x]) t)"
| "iterate (NDArray t) = Inr (map PyFloat t)"
| "iterate _ = Inl TypeError"

text \<open>\<open>len(value)\<close>, for the values that can be iterated.\<close>

definition len :: "pyval \<Rightarrow> py_error + nat" where
  "len v = bind_exn (iterate v) (\<lambda>items. Inr (length items))"

definition unpack :: "nat \<Rightarrow> pyval \<Rightarrow> py_error + pyval list" where
  "unpack n v =
     bind_exn (iterate v) (\<lambda>items. if length items = n then Inr items else Inl ValueError)"

text \<open>
  Truth value of an object, as \<open>not greedy\<close> computes it: a number is true when it is not
  zero, a tuple when it is not empty, a tensor or an array of one element as that element
  (of another size it has no truth value); the distribution objects and a module define
  neither \<open>__bool__\<close> nor \<open>__len__\<close> and are true.
\<close>

fun truthy :: "pyval \<Rightarrow> py_error + bool" where
  "truthy (PyBool b) = Inr b"
| "truthy NoneValue = Inr False"
| "truthy (PyFloat x) = Inr (x \<noteq> 0)"
| "truthy (PyInt n) = Inr (n \<noteq> 0)"
| "truthy (Tensor t) = (case t of [x] \<Rightarrow> Inr (x \<noteq> 0) | _ \<Rightarrow> Inl RuntimeError)"
| "truthy (NDArray t) = (case t of [x] \<Rightarrow> Inr (x \<noteq> 0) | _ \<Rightarrow> Inl ValueError)"
| "truthy (Tuple vs) = Inr (vs \<noteq> [])"
| "truthy (Normal loc scale) = Inr True"
| "truthy (LogisticMixture weightings mu scale) = Inr True"
| "truthy Module = Inr True"

section \<open>train.py: the trainer and its collaborators\<close>

text \<open>
  The fields of \<open>AgentTrainer\<close> that \<open>fine_tune\<close> and \<open>init_buffer\<close> read or write: the
  parameter collections of the four actor-critic networks, the replay buffer, and the
  two constants of \<open>__init__(self, gamma=0.95, tau=0.01)\<close>.
\<close>

record 'b trainer =
  actor_params :: "tensor list"
  target_actor_params :: "tensor list"
  critic_params :: "tensor list"
  target_critic_params :: "tensor list"
  pri_buffer :: 'b
  gamma :: real
  tau :: real

text \<open>
  Everything imported from outside \<open>train.py\<close> is a parameter of the model: the forward
  passes of the networks (given their current parameters), the draw of a distribution,
  the exploration noise, tensor arithmetic of the library, automatic differentiation and
  the optimizers (which transform the trainer), and the three operations and the
  constructor of \<open>prioritized_replay_buffer.PrioritizedReplayBuffer\<close>, each receiving the
  positional and keyword arguments exactly as the call site passes them; an operation
  of the buffer returns a value or raises, and leaves the buffer in a new state. The
  fields \<open>buffer_store\<close>, \<open>buffer_sample_batch\<close> and \<open>buffer_update_priorities\<close> stand
  for the methods \<open>store\<close>, \<open>sample_batch\<close> and \<open>update_priorities\<close> of
  \<open>self.pri_buffer\<close>.
\<close>

record 'b env =
  vision_network :: "pyval \<Rightarrow> py_error + pyval"
  plan_proposal :: "pyval \<Rightarrow> pyval \<Rightarrow> pyval \<Rightarrow> py_error + pyval"
  dist_sample :: "pyval \<Rightarrow> py_error + pyval"
  actor :: "tensor list \<Rightarrow> pyval \<Rightarrow> pyval \<Rightarrow> pyval \<Rightarrow> pyval \<Rightarrow> py_error + pyval"
  critic :: "tensor list \<Rightarrow> pyval \<Rightarrow> pyval \<Rightarrow> pyval \<Rightarrow> py_error + pyval"
  noise_tensor :: "py_error + tensor"
  torch :: "string \<Rightarrow> pyval list \<Rightarrow> py_error + pyval"
  autograd :: "string \<Rightarrow> 'b trainer \<Rightarrow> (py_error + unit) \<times> 'b trainer"
  PrioritizedReplayBuffer :: "pyval list \<Rightarrow> bindings \<Rightarrow> py_error + 'b"
  buffer_store :: "pyval list \<Rightarrow> bindings \<Rightarrow> 'b \<Rightarrow> (py_error + pyval) \<times> 'b"
  buffer_sample_batch :: "pyval list \<Rightarrow> bindings \<Rightarrow> 'b \<Rightarrow> (py_error + pyval) \<times> 'b"
  buffer_update_priorities :: "pyval list \<Rightarrow> bindings \<Rightarrow> 'b \<Rightarrow> (py_error + pyval) \<times> 'b"

text \<open>Statements that may raise and may change the trainer.\<close>

type_synonym ('s, 'a) stm = "'s \<Rightarrow> (py_error + 'a) \<times> 's"

definition bind_st :: "('s, 'a) stm \<Rightarrow> ('a \<Rightarrow> ('s, 'b) stm) \<Rightarrow> ('s, 'b) stm" where
  "bind_st m f s = (case m s of (Inl e, s') \<Rightarrow> (Inl e, s') | (Inr v, s') \<Rightarrow> f v s')"

definition pure_st :: "py_error + 'a \<Rightarrow> ('s, 'a) stm" where
  "pure_st r s = (r, s)"

text \<open>A method call on \<open>self.pri_buffer\<close>.\<close>

definition on_pri_buffer :: "('b, 'a) stm \<Rightarrow> ('b trainer, 'a) stm" where
  "on_pri_buffer m self = (case m (pri_buffer self) of (r, b) \<Rightarrow> (r, self\<lparr>pri_buffer := b\<rparr>))"

text \<open>
  Line 40 of \<open>AgentTrainer.__init__\<close>:
  \<open>self.pri_buffer = PrioritizedReplayBuffer(alpha=0.6, beta=0.4)\<close>.
\<close>

definition pri_buffer_args :: "pyval list" where
  "pri_buffer_args = []"

definition pri_buffer_kwargs :: bindings where
  "pri_buffer_kwargs = [(''alpha'', PyFloat 0.6), (''beta'', PyFloat 0.4)]"

definition init_pri_buffer :: "'b env \<Rightarrow> py_error + 'b" where
  "init_pri_buffer env = PrioritizedReplayBuffer env pri_buffer_args pri_buffer_kwargs"

text \<open>
  Modelled from the spec: the signature of the missing constructor of
  \<open>PrioritizedReplayBuffer\<close>, with the four configuration parameters that section 6
  lists, each with the default given here (\<open>None\<close>: the parameter is required).
\<close>

definition buffer_sig ::
  "pyval option \<Rightarrow> pyval option \<Rightarrow> pyval option \<Rightarrow> pyval option \<Rightarrow> param list" where
  "buffer_sig capacity_default alpha_default beta_default epsilon_default =
     [\<lparr>pname = ''capacity'', pdefault = capacity_default\<rparr>,
      \<lparr>pname = ''alpha'', pdefault = alpha_default\<rparr>,
      \<lparr>pname = ''beta'', pdefault = beta_default\<rparr>,
      \<lparr>pname = ''epsilon'', pdefault = epsilon_default\<rparr>]"

text \<open>\<open>def get_action(self, goal, vision, proprioception, greedy=False)\<close>.\<close>

definition get_action_sig :: "param list" where
  "get_action_sig =
     [\<lparr>pname = ''goal'', pdefault = None\<rparr>,
      \<lparr>pname = ''vision'', pdefault = None\<rparr>,
      \<lparr>pname = ''proprioception'', pdefault = None\<rparr>,
      \<lparr>pname = ''greedy'', pdefault = Some (PyBool False)\<rparr>]"

text \<open>
  Line 78, \<open>action += torch.tensor(self.noise.sample(), dtype=torch.float).cuda()\<close>: the
  right-hand side is evaluated first. A tensor takes the noise componentwise (shapes that
  differ are left to the library); a Python number, a \<open>bool\<close> included, has no \<open>__iadd__\<close>
  and the tensor's \<open>__radd__\<close> adds it to every component, so that \<open>action\<close> is a tensor
  afterwards; every other object, the \<open>LogisticMixture\<close> among them, has no addition
  with a tensor: TypeError.
\<close>

definition add_noise :: "'b env \<Rightarrow> pyval \<Rightarrow> py_error + pyval" where
  "add_noise env action =
     bind_exn (noise_tensor env) (\<lambda>n.
       case action of
         Tensor t \<Rightarrow>
           if length n = length t then Inr (Tensor (map (\<lambda>(a, b). a + b) (zip t n)))
           else torch env ''add'' [Tensor t, Tensor n]
       | PyFloat x \<Rightarrow> Inr (Tensor (map (\<lambda>b. x + b) n))
       | PyInt k \<Rightarrow> Inr (Tensor (map (\<lambda>b. real_of_int k + b) n))
       | PyBool c \<Rightarrow> Inr (Tensor (map (\<lambda>b. (if c then 1 else 0) + b) n))
       | _ \<Rightarrow> Inl TypeError)"

text \<open>Line 79, \<open>action.detach().cpu().numpy()\<close>: only a tensor has \<open>detach\<close>.\<close>

definition detach_cpu_numpy :: "pyval \<Rightarrow> py_error + tensor" where
  "detach_cpu_numpy v = (case v of Tensor t \<Rightarrow> Inr t | _ \<Rightarrow> Inl AttributeError)"

text \<open>The body of \<open>get_action\<close> (lines 70 to 79), on the bound parameters.\<close>

definition get_action_body :: "'b env \<Rightarrow> 'b trainer \<Rightarrow> bindings \<Rightarrow> py_error + pyval" where
  "get_action_body env self bs =
     bind_exn (arg bs ''goal'') (\<lambda>goal.
     bind_exn (arg bs ''vision'') (\<lambda>vision.
     bind_exn (arg bs ''proprioception'') (\<lambda>proprioception.
     bind_exn (arg bs ''greedy'') (\<lambda>greedy.
     bind_exn (vision_network env goal) (\<lambda>goal_embeded.
     bind_exn (vision_network env vision) (\<lambda>vision_embeded.
     bind_exn (plan_proposal env vision_embeded proprioception goal_embeded) (\<lambda>proposal_dist.
     bind_exn (dist_sample env proposal_dist) (\<lambda>proposal_latent.
     bind_exn (actor env (actor_params self) vision_embeded proprioception proposal_latent
                 goal_embeded) (\<lambda>action.
     bind_exn (truthy greedy) (\<lambda>g.
     bind_exn (if \<not> g then add_noise env action else Inr action) (\<lambda>action.
     bind_exn (detach_cpu_numpy action) (\<lambda>a.
     Inr (NDArray (np_clip a (-1.0) 1.0))))))))))))))"

text \<open>A call \<open>self.get_action(...)\<close>: bind the arguments, then run the body.\<close>

definition get_action :: "'b env \<Rightarrow> 'b trainer \<Rightarrow> pyval list \<Rightarrow> bindings \<Rightarrow> py_error + pyval" where
  "get_action env self args kws =
     bind_exn (bind_args get_action_sig args kws) (get_action_body env self)"

text \<open>
  \<open>td_target\<close> (lines 132 to 140). Line 134 is \<open>self.get_action(goal, vision)\<close>. Line 138
  is computed here for a batch of one row and left to the library otherwise.
\<close>

definition td_target ::
  "'b env \<Rightarrow> 'b trainer \<Rightarrow> pyval \<Rightarrow> pyval \<Rightarrow> pyval \<Rightarrow> pyval \<Rightarrow> pyval \<Rightarrow> pyval \<Rightarrow> py_error + pyval" where
  "td_target env self goal reward vision next_vision next_proprioception done =
     bind_exn (get_action env self [goal, vision] []) (\<lambda>next_action.
     bind_exn (vision_network env next_vision) (\<lambda>next_vision_embeded.
     bind_exn (critic env (target_critic_params self) next_vision_embeded next_proprioception
                 next_action) (\<lambda>next_q.
     bind_exn (case (reward, next_q, done) of
                 (Tensor [r], Tensor q, Tensor [d]) \<Rightarrow>
                   Inr (Tensor (td_target_value (gamma self) r q d))
               | _ \<Rightarrow> torch env ''td_target'' [reward, PyFloat (gamma self), next_q, done])
       (\<lambda>target. torch env ''float'' [target]))))"

text \<open>
  \<open>init_buffer\<close> (lines 142 to 145): one call of \<open>store\<close> with seven positional
  arguments.
\<close>

definition init_buffer ::
  "'b env \<Rightarrow> pyval \<Rightarrow> pyval \<Rightarrow> pyval \<Rightarrow> pyval \<Rightarrow> pyval \<Rightarrow> pyval \<Rightarrow> pyval \<Rightarrow> ('b trainer, pyval) stm" where
  "init_buffer env vision proprioception action reward next_vision next_proprioception done =
     bind_st (on_pri_buffer (buffer_store env
                [vision, proprioception, action, reward, next_vision, next_proprioception, done]
                [])) (\<lambda>_.
     pure_st (Inr NoneValue))"

text \<open>
  Lines 178 to 181, the soft update of one target network:
  \<open>for target_param, param in zip(target.parameters(), source.parameters()):
     target_param.data.copy_(self.tau * param.data + (1.0 - self.tau) * target_param.data)\<close>.
  \<open>zip\<close> stops at the shorter collection; the target parameters beyond it stay as they
  are. A source parameter of one component is broadcast over the target parameter;
  two parameters of other, different sizes have no sum that \<open>copy_\<close> could write into the
  target: RuntimeError.
\<close>

definition interpolate :: "real \<Rightarrow> tensor \<Rightarrow> tensor \<Rightarrow> py_error + tensor" where
  "interpolate t param target_param =
     (if length param = length target_param
      then Inr (map (\<lambda>(p, tp). t * p + (1.0 - t) * tp) (zip param target_param))
      else (case param of
              [p] \<Rightarrow> Inr (map (\<lambda>tp. t * p + (1.0 - t) * tp) target_param)
            | _ \<Rightarrow> Inl RuntimeError))"

fun soft_update :: "real \<Rightarrow> tensor list \<Rightarrow> tensor list \<Rightarrow> (py_error + unit) \<times> tensor list" where
  "soft_update t [] params = (Inr (), [])"
| "soft_update t (target_param # targets) [] = (Inr (), target_param # targets)"
| "soft_update t (target_param # targets) (param # params) =
     (case interpolate t param target_param of
        Inl e \<Rightarrow> (Inl e, target_param # targets)
      | Inr new_param \<Rightarrow>
          (case soft_update t targets params of (r, rest) \<Rightarrow> (r, new_param # rest)))"

definition update_targets :: "('b trainer, unit) stm" where
  "update_targets self =
     (case soft_update (tau self) (target_actor_params self) (actor_params self) of
        (Inl e, ta) \<Rightarrow> (Inl e, self\<lparr>target_actor_params := ta\<rparr>)
      | (Inr u, ta) \<Rightarrow>
          (case soft_update (tau self) (target_critic_params self) (critic_params self) of
             (r, tc) \<Rightarrow> (r, self\<lparr>target_actor_params := ta, target_critic_params := tc\<rparr>)))"

text \<open>
  Method calls on values that need not be tensors: \<open>critic_loss.backward()\<close> and
  \<open>actor_loss.backward()\<close> exist on tensors only, and so does \<open>action.pow(2)\<close>.
\<close>

definition backward :: "'b env \<Rightarrow> string \<Rightarrow> pyval \<Rightarrow> ('b trainer, unit) stm" where
  "backward env name loss self =
     (case loss of Tensor l \<Rightarrow> autograd env name self | _ \<Rightarrow> (Inl AttributeError, self))"

definition pow_mean :: "'b env \<Rightarrow> pyval \<Rightarrow> py_error + pyval" where
  "pow_mean env action =
     (case action of Tensor a \<Rightarrow> torch env ''pow(2).mean'' [action] | _ \<Rightarrow> Inl AttributeError)"

text \<open>\<open>fine_tune\<close> (lines 148 to 181), statement by statement.\<close>

definition fine_tune :: "'b env \<Rightarrow> pyval \<Rightarrow> ('b trainer, unit) stm" where
  "fine_tune env goal =
     bind_st (on_pri_buffer (buffer_sample_batch env [] [])) (\<lambda>batch.
     bind_st (pure_st (unpack 9 batch)) (\<lambda>values.
     (case values of
        [vision, proprioception, next_vision, next_proprioception, action, reward, done,
         weights, indices] \<Rightarrow>
          bind_st (\<lambda>self. (td_target env self goal reward vision next_vision
                             next_proprioception done, self)) (\<lambda>target_q.
          bind_st (pure_st (vision_network env vision)) (\<lambda>vision_embeded.
          bind_st (\<lambda>self. (critic env (critic_params self) vision_embeded proprioception
                             action, self)) (\<lambda>current_q.
          bind_st (pure_st (torch env ''MSELoss'' [current_q, target_q])) (\<lambda>critic_loss.
          bind_st (pure_st (torch env ''sub.t'' [target_q, current_q])) (\<lambda>td_errors.
          bind_st (pure_st (torch env ''numpy'' [td_errors])) (\<lambda>td_errors_numpy.
          bind_st (on_pri_buffer (buffer_update_priorities env [indices, td_errors_numpy] [])) (\<lambda>_.
          bind_st (\<lambda>self. (get_action env self [goal, vision] [(''greedy'', PyBool False)],
                             self)) (\<lambda>action.
          bind_st (\<lambda>self. (critic env (critic_params self) vision_embeded proprioception
                             action, self)) (\<lambda>q.
          bind_st (pure_st (torch env ''neg.mean'' [q])) (\<lambda>pr.
          bind_st (pure_st (pow_mean env action)) (\<lambda>pg.
          bind_st (pure_st (torch env ''pr + pg*1e-3'' [pr, pg])) (\<lambda>actor_loss.
          bind_st (autograd env ''critic_optimizer.zero_grad'') (\<lambda>_.
          bind_st (backward env ''critic_loss.backward'' critic_loss) (\<lambda>_.
          bind_st (autograd env ''clip_grad_norm_(critic)'') (\<lambda>_.
          bind_st (autograd env ''critic_optimizer.step'') (\<lambda>_.
          bind_st (autograd env ''actor_optimizer.zero_grad'') (\<lambda>_.
          bind_st (autograd env ''clip_grad_norm_(actor)'') (\<lambda>_.
          bind_st (backward env ''actor_loss.backward'' actor_loss) (\<lambda>_.
          bind_st (autograd env ''actor_optimizer.step'') (\<lambda>_.
          update_targets))))))))))))))))))))
      | _ \<Rightarrow> pure_st (Inl ValueError))))"

text \<open>A small trainer on which the definitions can be evaluated.\<close>

definition example_trainer :: "unit trainer" where
  "example_trainer =
     \<lparr>actor_params = [[1, 2], [3]], target_actor_params = [[0, 0], [1]],
      critic_params = [[4]], target_critic_params = [[2]],
      pri_buffer = (), gamma = 0.95, tau = 0.01\<rparr>"

definition example_env :: "unit env" where
  "example_env =
     \<lparr>vision_network = (\<lambda>v. Inr v),
      plan_proposal = (\<lambda>v p g. Inr (Normal [0] [1])),
      dist_sample = (\<lambda>d. Inr (Tensor [0])),
      actor = (\<lambda>params v p l g. Inr (Tensor [2, -3, 1/2])),
      critic = (\<lambda>params v p a. Inr (Tensor [0])),
      noise_tensor = Inr [1/10, 1/10, 1/10],
      torch = (\<lambda>name args. Inl RuntimeError),
      autograd = (\<lambda>name self. (Inr (), self)),
      PrioritizedReplayBuffer = (\<lambda>args kws. Inr ()),
      buffer_store = (\<lambda>args kws b. (Inr NoneValue, b)),
      buffer_sample_batch = (\<lambda>args kws b. (Inr (Tuple (replicate 9 (Tensor [0]))), b)),
      buffer_update_priorities = (\<lambda>args kws b. (Inr NoneValue, b))\<rparr>"


section \<open>The prioritized replay buffer\<close>

text \<open>
  The module \<open>prioritized_replay_buffer\<close> that \<open>train.py\<close> imports is not among the
  sources. Every definition of this section is written from sections 3 and 4 of the
  specification, and says so.
\<close>

subsection \<open>Transitions and the transition store\<close>

text \<open>
  Modelled from the spec: the record \<open>Transition\<close> of section 3 (the module defining it
  is missing): state, action, reward, next state and termination flag.
\<close>

record ('s, 'a) transition =
  tr_state :: 's
  tr_action :: 'a
  tr_reward :: real
  tr_next_state :: 's
  tr_done :: bool

subsection \<open>The priority index\<close>

text \<open>
  Modelled from the spec: the sum tree of section 4.2 (its implementation is missing).
  A leaf holds \<open>priority ^ alpha\<close> of one slot, an inner node the sum of its subtree.
\<close>

datatype sumtree = Leaf real | Node real sumtree sumtree

text \<open>Modelled from the spec: \<open>total()\<close> of the missing priority index, the root sum, read in one step.\<close>

fun tree_total :: "sumtree \<Rightarrow> real" where
  "tree_total (Leaf v) = v"
| "tree_total (Node s l r) = s"

text \<open>
  Modelled from the spec: the leaves of the missing tree, one per slot, counted and
  listed from left to right (slot 0 first).
\<close>

fun leaves :: "sumtree \<Rightarrow> nat" where
  "leaves (Leaf v) = 1"
| "leaves (Node s l r) = leaves l + leaves r"

fun leaf_values :: "sumtree \<Rightarrow> real list" where
  "leaf_values (Leaf v) = [v]"
| "leaf_values (Node s l r) = leaf_values l @ leaf_values r"

text \<open>Modelled from the spec: the missing tree over \<open>capacity\<close> leaves, all zero, as constructed.\<close>

fun build :: "nat \<Rightarrow> sumtree" where
  "build n = (if n \<le> 1 then Leaf 0 else Node 0 (build (n div 2)) (build (n - n div 2)))"

text \<open>Modelled from the spec: reading the leaf of a slot in the missing tree.\<close>

fun get_leaf :: "sumtree \<Rightarrow> nat \<Rightarrow> real" where
  "get_leaf (Leaf v) i = v"
| "get_leaf (Node s l r) i =
     (if i < leaves l then get_leaf l i else get_leaf r (i - leaves l))"

text \<open>
  Modelled from the spec: the leaf update of the missing \<open>set\<close>, which "updates the leaf
  and propagates the delta up to the root".
\<close>

fun set_leaf :: "sumtree \<Rightarrow> nat \<Rightarrow> real \<Rightarrow> sumtree" where
  "set_leaf (Leaf old) i v = Leaf v"
| "set_leaf (Node s l r) i v =
     (if i < leaves l
      then Node (s + (v - get_leaf l i)) (set_leaf l i v) r
      else Node (s + (v - get_leaf r (i - leaves l))) l (set_leaf r (i - leaves l) v))"

text \<open>
  Modelled from the spec: the missing \<open>sample_one(random_value)\<close>, which "walks from the
  root choosing the left/right child based on whether random_value falls below the left
  subtree's sum, subtracting accordingly; returns the selected slot".
\<close>

fun sample_one :: "sumtree \<Rightarrow> real \<Rightarrow> nat" where
  "sample_one (Leaf v) random_value = 0"
| "sample_one (Node s l r) random_value =
     (if random_value < tree_total l then sample_one l random_value
      else leaves l + sample_one r (random_value - tree_total l))"

text \<open>Every inner node holds the sum of its two children.\<close>

fun sums_ok :: "sumtree \<Rightarrow> bool" where
  "sums_ok (Leaf v) = True"
| "sums_ok (Node s l r) = (s = tree_total l + tree_total r \<and> sums_ok l \<and> sums_ok r)"

subsection \<open>The buffer\<close>

text \<open>
  Modelled from the spec: the missing class \<open>PrioritizedReplayBuffer\<close>, with the
  configuration of section 6 (\<open>capacity\<close>, \<open>alpha\<close>, \<open>beta\<close>, \<open>epsilon\<close>), the transition
  store (one optional transition per slot), the priority entry of every slot, the sum
  tree over them, the running maximum that \<open>max_priority()\<close> reads, and \<open>size\<close> and
  \<open>write_cursor\<close> of section 3.
\<close>

record ('s, 'a) buffer =
  capacity :: nat
  alpha :: real
  beta :: real
  epsilon :: real
  transitions :: "('s, 'a) transition option list"
  priority :: "real list"
  tree :: sumtree
  max_priority :: real
  buf_size :: nat
  write_cursor :: nat

text \<open>
  Modelled from the spec: the missing constructor. "InvalidCapacity: construction with
  capacity \<open>\<le>\<close> 0"; the index "has fixed size equal to capacity".
\<close>

definition new_buffer :: "int \<Rightarrow> real \<Rightarrow> real \<Rightarrow> real \<Rightarrow> py_error + ('s, 'a) buffer" where
  "new_buffer cap a b e =
     (if cap \<le> 0 then Inl InvalidCapacity
      else Inr \<lparr>capacity = nat cap, alpha = a, beta = b, epsilon = e,
                transitions = replicate (nat cap) None,
                priority = replicate (nat cap) 0,
                tree = build (nat cap),
                max_priority = 0, buf_size = 0, write_cursor = 0\<rparr>)"

text \<open>
  Modelled from the spec: the missing \<open>put(slot, transition)\<close> and \<open>get(slot)\<close> of section
  4.1: \<open>put\<close> "overwrites the record at slot unconditionally"; \<open>get\<close> is an error "if slot
  was never written" (here UnknownSlot, also for a slot outside the store).
\<close>

definition put :: "nat \<Rightarrow> ('s, 'a) transition \<Rightarrow> ('s, 'a) buffer \<Rightarrow> ('s, 'a) buffer" where
  "put slot t buf = buf\<lparr>transitions := (transitions buf)[slot := Some t]\<rparr>"

definition get :: "('s, 'a) buffer \<Rightarrow> nat \<Rightarrow> py_error + ('s, 'a) transition" where
  "get buf slot =
     (if slot < length (transitions buf)
      then (case transitions buf ! slot of Some t \<Rightarrow> Inr t | None \<Rightarrow> Inl UnknownSlot)
      else Inl UnknownSlot)"

text \<open>
  Modelled from the spec: the missing \<open>set(slot, priority)\<close> of section 4.2: "error if
  priority < 0; clamps to a small positive floor", updates the leaf to
  \<open>priority ^ alpha\<close>, and raises the running maximum. The request is rejected "before
  any leaf mutation"; a slot that holds no transition is an UnknownSlot.
\<close>

definition set_priority ::
  "nat \<Rightarrow> real \<Rightarrow> ('s, 'a) buffer \<Rightarrow> py_error + ('s, 'a) buffer" where
  "set_priority slot p buf =
     (if p < 0 then Inl InvalidPriority
      else case get buf slot of
        Inl e \<Rightarrow> Inl e
      | Inr t \<Rightarrow>
          (let p' = max p (epsilon buf) in
           Inr (buf\<lparr>priority := (priority buf)[slot := p'],
                    tree := set_leaf (tree buf) slot (p' powr alpha buf),
                    max_priority := max (max_priority buf) p'\<rparr>)))"

text \<open>
  Modelled from the spec: the missing \<open>store\<close> of section 4.3: "computes slot =
  write_cursor mod capacity; writes transition to Transition Store; sets its priority in
  Priority Index to current max_priority() (or a default, e.g. 1.0, if the buffer is
  empty); advances write_cursor; increments size up to capacity. No return value".
\<close>

definition store :: "('s, 'a) transition \<Rightarrow> ('s, 'a) buffer \<Rightarrow> py_error + ('s, 'a) buffer" where
  "store t buf =
     (let slot = write_cursor buf mod capacity buf;
          p = (if buf_size buf = 0 then 1.0 else max_priority buf)
      in bind_exn (set_priority slot p (put slot t buf)) (\<lambda>buf'.
         Inr (buf'\<lparr>write_cursor := (write_cursor buf + 1) mod capacity buf,
                   buf_size := min (buf_size buf + 1) (capacity buf)\<rparr>)))"

text \<open>A sequence of \<open>store\<close> calls, one after the other.\<close>

fun store_all :: "('s, 'a) transition list \<Rightarrow> ('s, 'a) buffer \<Rightarrow> py_error + ('s, 'a) buffer" where
  "store_all [] buf = Inr buf"
| "store_all (t # ts) buf = bind_exn (store t buf) (store_all ts)"

text \<open>
  Modelled from the spec: the assignments that the missing
  \<open>update_priorities(slot_ids, td_errors)\<close> of section 4.3 makes in the priority index:
  "for each (slot, error) pair, sets the new priority to |error| + epsilon". The pairs are
  those of \<open>zip(slot_ids, td_errors)\<close>; the spec gives them no order, here they are taken
  from the left. The check that section 7 puts before them is made by
  \<open>update_priorities\<close>, below.
\<close>

fun set_priorities ::
  "nat list \<Rightarrow> real list \<Rightarrow> ('s, 'a) buffer \<Rightarrow> py_error + ('s, 'a) buffer" where
  "set_priorities (slot # slots) (error # errors) buf =
     bind_exn (set_priority slot (\<bar>error\<bar> + epsilon buf) buf)
       (set_priorities slots errors)"
| "set_priorities slots errors buf = Inr buf"

text \<open>
  Modelled from the spec: the weight formula of the missing \<open>sample_batch\<close>:
  \<open>(N * P(i)) ^ (-beta)\<close> with \<open>P(i) = priority[i] ^ alpha / total()\<close> and \<open>N = size\<close>; the
  division by the largest weight of the batch follows in \<open>sample_batch\<close>.
\<close>

definition sampling_probability :: "('s, 'a) buffer \<Rightarrow> nat \<Rightarrow> real" where
  "sampling_probability buf i = (priority buf ! i) powr alpha buf / tree_total (tree buf)"

definition raw_weight :: "('s, 'a) buffer \<Rightarrow> nat \<Rightarrow> real" where
  "raw_weight buf i = (real (buf_size buf) * sampling_probability buf i) powr (- beta buf)"

text \<open>The largest element of a sequence; as in Python, there is none in an empty one.\<close>

fun max_list :: "real list \<Rightarrow> py_error + real" where
  "max_list [] = Inl ValueError"
| "max_list (x # xs) = Inr (fold max xs x)"

fun collect :: "('x \<Rightarrow> py_error + 'y) \<Rightarrow> 'x list \<Rightarrow> py_error + 'y list" where
  "collect f [] = Inr []"
| "collect f (x # xs) =
     bind_exn (f x) (\<lambda>y. bind_exn (collect f xs) (\<lambda>ys. Inr (y # ys)))"

text \<open>
  Modelled from the spec: what the missing \<open>sample_batch\<close> returns according to section
  6, \<open>(states, actions, rewards, next_states, dones, importance_weights, slot_ids)\<close>.
\<close>

record ('s, 'a) batch =
  states :: "'s list"
  actions :: "'a list"
  rewards :: "real list"
  next_states :: "'s list"
  dones :: "bool list"
  importance_weights :: "real list"
  slot_ids :: "nat list"

text \<open>
  Modelled from the spec: the missing \<open>sample_batch(batch_size)\<close> of section 4.3. It is
  an EmptyBufferSample on a buffer without transitions. Draw \<open>k\<close> uses the uniform value
  \<open>rng k\<close> of \<open>[0, 1)\<close>, "scaled by total()"; slots may repeat. The weights are divided by
  the largest weight of the batch.
\<close>

definition sample_batch ::
  "nat \<Rightarrow> (nat \<Rightarrow> real) \<Rightarrow> ('s, 'a) buffer \<Rightarrow> py_error + ('s, 'a) batch" where
  "sample_batch batch_size rng buf =
     (if buf_size buf = 0 then Inl EmptyBufferSample
      else
        (let drawn = map (\<lambda>k. sample_one (tree buf) (rng k * tree_total (tree buf)))
                       [0..<batch_size]
         in bind_exn (collect (get buf) drawn) (\<lambda>ts.
            bind_exn (max_list (map (raw_weight buf) drawn)) (\<lambda>max_weight.
            Inr \<lparr>states = map tr_state ts, actions = map tr_action ts,
                 rewards = map tr_reward ts, next_states = map tr_next_state ts,
                 dones = map tr_done ts,
                 importance_weights = map (\<lambda>i. raw_weight buf i / max_weight) drawn,
                 slot_ids = drawn\<rparr>))))"

text \<open>
  The states the operations keep the buffer in: the configuration is as section 6
  demands (\<open>capacity\<close> and \<open>epsilon\<close> positive), the store, the priority entries and the
  tree have \<open>capacity\<close> slots, the tree holds \<open>priority ^ alpha\<close> and correct sums, the
  written slots are the first \<open>size\<close> ones, with priorities of at least \<open>epsilon\<close> that the
  running maximum bounds, and the other slots have priority zero.
\<close>

definition buffer_inv :: "('s, 'a) buffer \<Rightarrow> bool" where
  "buffer_inv buf =
     (0 < capacity buf \<and> 0 < epsilon buf
      \<and> length (transitions buf) = capacity buf
      \<and> length (priority buf) = capacity buf
      \<and> leaves (tree buf) = capacity buf
      \<and> sums_ok (tree buf)
      \<and> leaf_values (tree buf) = map (\<lambda>p. p powr alpha buf) (priority buf)
      \<and> buf_size buf \<le> capacity buf
      \<and> write_cursor buf < capacity buf
      \<and> (buf_size buf = capacity buf \<or> write_cursor buf = buf_size buf)
      \<and> (\<forall>i<buf_size buf.
            transitions buf ! i \<noteq> None
            \<and> epsilon buf \<le> priority buf ! i \<and> priority buf ! i \<le> max_priority buf)
      \<and> (\<forall>i<capacity buf.
            buf_size buf \<le> i \<longrightarrow> transitions buf ! i = None \<and> priority buf ! i = 0))"

text \<open>
  The state a fresh buffer of capacity \<open>c\<close> is in after the transitions \<open>xs\<close> have been
  stored, as far as the circular store is concerned: the cursor and the size count the
  stores, and each of the last \<open>c\<close> transitions sits in the slot of its number modulo
  \<open>c\<close>.
\<close>

definition holds_last :: "('s, 'a) buffer \<Rightarrow> nat \<Rightarrow> ('s, 'a) transition list \<Rightarrow> bool" where
  "holds_last buf c xs =
     (0 < c \<and> capacity buf = c \<and> length (transitions buf) = c
      \<and> write_cursor buf = length xs mod c \<and> buf_size buf = min (length xs) c
      \<and> 0 \<le> max_priority buf
      \<and> (\<forall>k<length xs. length xs - k \<le> c \<longrightarrow> transitions buf ! (k mod c) = Some (xs ! k)))"

text \<open>Three transitions and the states of a buffer of capacity 2 that stores them.\<close>

definition example_t1 :: "(nat, nat) transition" where
  "example_t1 = \<lparr>tr_state = 1, tr_action = 10, tr_reward = 0, tr_next_state = 2, tr_done = False\<rparr>"

definition example_t2 :: "(nat, nat) transition" where
  "example_t2 = \<lparr>tr_state = 2, tr_action = 20, tr_reward = 1, tr_next_state = 3, tr_done = False\<rparr>"

definition example_t3 :: "(nat, nat) transition" where
  "example_t3 = \<lparr>tr_state = 3, tr_action = 30, tr_reward = 0, tr_next_state = 4, tr_done = True\<rparr>"

definition example_b0 :: "(nat, nat) buffer" where
  "example_b0 =
     \<lparr>capacity = 2, alpha = 1, beta = 1, epsilon = 1/100,
      transitions = [None, None], priority = [0, 0],
      tree = Node 0 (Leaf 0) (Leaf 0), max_priority = 0, buf_size = 0, write_cursor = 0\<rparr>"

definition example_b1 :: "(nat, nat) buffer" where
  "example_b1 =
     \<lparr>capacity = 2, alpha = 1, beta = 1, epsilon = 1/100,
      transitions = [Some example_t1, None], priority = [1, 0],
      tree = Node 1 (Leaf 1) (Leaf 0), max_priority = 1, buf_size = 1, write_cursor = 1\<rparr>"

definition example_b2 :: "(nat, nat) buffer" where
  "example_b2 =
     \<lparr>capacity = 2, alpha = 1, beta = 1, epsilon = 1/100,
      transitions = [Some example_t1, Some example_t2], priority = [1, 1],
      tree = Node 2 (Leaf 1) (Leaf 1), max_priority = 1, buf_size = 2, write_cursor = 0\<rparr>"

definition example_b3 :: "(nat, nat) buffer" where
  "example_b3 =
     \<lparr>capacity = 2, alpha = 1, beta = 1, epsilon = 1/100,
      transitions = [Some example_t3, Some example_t2], priority = [1, 1],
      tree = Node 2 (Leaf 1) (Leaf 1), max_priority = 1, buf_size = 2, write_cursor = 1\<rparr>"

text \<open>
  The states after the first and after the second pair of
  \<open>update_priorities([0, 0], [1, -2])\<close> on the full example buffer, and the state after
  the second pair of \<open>update_priorities([0, 1], [1, -2])\<close>.
\<close>

definition example_b2a :: "(nat, nat) buffer" where
  "example_b2a =
     \<lparr>capacity = 2, alpha = 1, beta = 1, epsilon = 1/100,
      transitions = [Some example_t1, Some example_t2], priority = [101/100, 1],
      tree = Node (201/100) (Leaf (101/100)) (Leaf 1), max_priority = 101/100,
      buf_size = 2, write_cursor = 0\<rparr>"

definition example_b4 :: "(nat, nat) buffer" where
  "example_b4 =
     \<lparr>capacity = 2, alpha = 1, beta = 1, epsilon = 1/100,
      transitions = [Some example_t1, Some example_t2], priority = [201/100, 1],
      tree = Node (301/100) (Leaf (201/100)) (Leaf 1), max_priority = 201/100,
      buf_size = 2, write_cursor = 0\<rparr>"

definition example_b6 :: "(nat, nat) buffer" where
  "example_b6 =
     \<lparr>capacity = 2, alpha = 1, beta = 1, epsilon = 1/100,
      transitions = [Some example_t1, Some example_t2], priority = [101/100, 201/100],
      tree = Node (302/100) (Leaf (101/100)) (Leaf (201/100)), max_priority = 201/100,
      buf_size = 2, write_cursor = 0\<rparr>"

text \<open>
  The full example buffer with priorities 3 and 1 (as after
  \<open>update_priorities([0], [2.99])\<close>), and a stream of uniform values.
\<close>

definition example_b5 :: "(nat, nat) buffer" where
  "example_b5 =
     \<lparr>capacity = 2, alpha = 1, beta = 1, epsilon = 1/100,
      transitions = [Some example_t1, Some example_t2], priority = [3, 1],
      tree = Node 4 (Leaf 3) (Leaf 1), max_priority = 3,
      buf_size = 2, write_cursor = 0\<rparr>"

definition example_rng :: "nat \<Rightarrow> real" where
  "example_rng k = (if k = 0 then 0 else 7/8)"

definition example_batch :: "(nat, nat) batch" where
  "example_batch =
     \<lparr>states = [1, 2], actions = [10, 20], rewards = [0, 1], next_states = [2, 3],
      dones = [False, False], importance_weights = [1/3, 1], slot_ids = [0, 1]\<rparr>"

section \<open>The buffer and its stale references\<close>

text \<open>
  Modelled from the spec: the missing bookkeeping behind the UnknownSlot of section 7,
  "update_priorities referencing a slot id that has been overwritten since it was
  sampled". Beside the store and the index above (\<open>core\<close>) the buffer keeps the slots
  that \<open>sample_batch\<close> has returned and \<open>store\<close> has not overwritten since (\<open>sampled\<close>),
  and the slots that \<open>store\<close> has overwritten since \<open>sample_batch\<close> returned them
  (\<open>stale\<close>).
\<close>

record ('s, 'a) replay_buffer =
  core :: "('s, 'a) buffer"
  sampled :: "nat list"
  stale :: "nat list"

definition new_replay_buffer ::
  "int \<Rightarrow> real \<Rightarrow> real \<Rightarrow> real \<Rightarrow> py_error + ('s, 'a) replay_buffer" where
  "new_replay_buffer cap a b e =
     bind_exn (new_buffer cap a b e) (\<lambda>buf. Inr \<lparr>core = buf, sampled = [], stale = []\<rparr>)"

text \<open>
  Modelled from the spec: the missing \<open>store\<close> on the whole buffer: the \<open>store\<close> of
  section 4.3, and the slot it has written is stale from then on if it had been sampled.
\<close>

definition replay_store ::
  "('s, 'a) transition \<Rightarrow> ('s, 'a) replay_buffer \<Rightarrow> py_error + ('s, 'a) replay_buffer" where
  "replay_store t rb =
     (let slot = write_cursor (core rb) mod capacity (core rb)
      in bind_exn (store t (core rb)) (\<lambda>buf'.
         Inr \<lparr>core = buf',
              sampled = removeAll slot (sampled rb),
              stale = (if slot \<in> set (sampled rb) then List.insert slot (stale rb)
                       else stale rb)\<rparr>))"

text \<open>
  Modelled from the spec: the call \<open>store(state, action, reward, next_state, done)\<close> of
  section 6 as a statement, with the five fields of one transition as its arguments:
  "No return value", so the value of the call is \<open>None\<close>.
\<close>

definition store_call ::
  "'s \<Rightarrow> 'a \<Rightarrow> real \<Rightarrow> 's \<Rightarrow> bool \<Rightarrow> (('s, 'a) replay_buffer, pyval) stm" where
  "store_call state action reward next_state done rb =
     (case replay_store \<lparr>tr_state = state, tr_action = action, tr_reward = reward,
                          tr_next_state = next_state, tr_done = done\<rparr> rb of
        Inl e \<Rightarrow> (Inl e, rb)
      | Inr rb' \<Rightarrow> (Inr NoneValue, rb'))"

text \<open>
  Modelled from the spec: the missing environment-interaction loop of section 6, from
  which \<open>store(state, action, reward, next_state, done)\<close> is "called once per environment
  step". The environment is a function \<open>env_step\<close> from its state to the five fields of
  the step taken there and its next state; the loop takes \<open>n\<close> steps.
\<close>

fun interaction_loop ::
  "('w \<Rightarrow> ('s \<times> 'a \<times> real \<times> 's \<times> bool) \<times> 'w) \<Rightarrow> nat \<Rightarrow> 'w
   \<Rightarrow> (('s, 'a) replay_buffer, 'w) stm" where
  "interaction_loop env_step 0 w rb = (Inr w, rb)"
| "interaction_loop env_step (Suc n) w rb =
     (case env_step w of
        ((state, action, reward, next_state, done), w') \<Rightarrow>
          (case store_call state action reward next_state done rb of
             (Inl e, rb') \<Rightarrow> (Inl e, rb')
           | (Inr none, rb') \<Rightarrow> interaction_loop env_step n w' rb'))"

text \<open>The transitions of the first \<open>n\<close> steps of an environment, one for each step.\<close>

fun step_transitions ::
  "('w \<Rightarrow> ('s \<times> 'a \<times> real \<times> 's \<times> bool) \<times> 'w) \<Rightarrow> nat \<Rightarrow> 'w
   \<Rightarrow> ('s, 'a) transition list" where
  "step_transitions env_step 0 w = []"
| "step_transitions env_step (Suc n) w =
     (case env_step w of
        ((state, action, reward, next_state, done), w') \<Rightarrow>
          \<lparr>tr_state = state, tr_action = action, tr_reward = reward,
           tr_next_state = next_state, tr_done = done\<rparr> # step_transitions env_step n w')"

text \<open>
  Modelled from the spec: the missing \<open>sample_batch(batch_size)\<close> on the whole buffer:
  the batch of section 4.3, and the slots it returns count as sampled from then on, and
  no longer as stale.
\<close>

definition replay_sample_batch ::
  "nat \<Rightarrow> (nat \<Rightarrow> real) \<Rightarrow> ('s, 'a) replay_buffer
   \<Rightarrow> py_error + ('s, 'a) batch \<times> ('s, 'a) replay_buffer" where
  "replay_sample_batch batch_size rng rb =
     bind_exn (sample_batch batch_size rng (core rb)) (\<lambda>b.
       Inr (b, rb\<lparr>sampled := fold List.insert (slot_ids b) (sampled rb),
                  stale := filter (\<lambda>s. s \<notin> set (slot_ids b)) (stale rb)\<rparr>))"


text \<open>
  Modelled from the spec: the missing \<open>update_priorities(slot_ids, td_errors)\<close> of section
  4.3, with the policy that section 7 asks for ("either error loudly or silently ignore
  stale updates"): here the call raises UnknownSlot when one of its pairs names a stale
  slot, before any priority is set; otherwise every pair is assigned.
\<close>

definition update_priorities ::
  "nat list \<Rightarrow> real list \<Rightarrow> ('s, 'a) replay_buffer \<Rightarrow> py_error + ('s, 'a) replay_buffer" where
  "update_priorities slots errors rb =
     (if list_ex (\<lambda>(slot, error). slot \<in> set (stale rb)) (zip slots errors)
      then Inl UnknownSlot
      else bind_exn (set_priorities slots errors (core rb)) (\<lambda>buf'. Inr (rb\<lparr>core := buf'\<rparr>)))"

text \<open>
  The example buffer as a whole: fresh, after two stores, after a batch of two has been
  sampled from it, and after a third store has overwritten slot 0 of that batch.
\<close>

definition example_r0 :: "(nat, nat) replay_buffer" where
  "example_r0 = \<lparr>core = example_b0, sampled = [], stale = []\<rparr>"

definition example_r1 :: "(nat, nat) replay_buffer" where
  "example_r1 = \<lparr>core = example_b1, sampled = [], stale = []\<rparr>"

definition example_r2 :: "(nat, nat) replay_buffer" where
  "example_r2 = \<lparr>core = example_b2, sampled = [], stale = []\<rparr>"

definition example_batch2 :: "(nat, nat) batch" where
  "example_batch2 =
     \<lparr>states = [1, 2], actions = [10, 20], rewards = [0, 1], next_states = [2, 3],
      dones = [False, False], importance_weights = [1, 1], slot_ids = [0, 1]\<rparr>"

definition example_r2s :: "(nat, nat) replay_buffer" where
  "example_r2s = \<lparr>core = example_b2, sampled = [1, 0], stale = []\<rparr>"

definition example_r3 :: "(nat, nat) replay_buffer" where
  "example_r3 = \<lparr>core = example_b3, sampled = [1], stale = [0]\<rparr>"

text \<open>
  The sampled example buffer after \<open>update_priorities([0, 0], [1, -2])\<close> and after
  \<open>update_priorities([0, 1], [1, -2])\<close>.
\<close>

definition example_r4 :: "(nat, nat) replay_buffer" where
  "example_r4 = \<lparr>core = example_b4, sampled = [1, 0], stale = []\<rparr>"

definition example_r6 :: "(nat, nat) replay_buffer" where
  "example_r6 = \<lparr>core = example_b6, sampled = [1, 0], stale = []\<rparr>"



text \<open>
  A full buffer whose slot 1 has been sampled, has priority 1 and is the next to be
  written, while the largest priority is 3; and the buffer after the store of the first
  example transition.
\<close>

definition example_b7 :: "(nat, nat) buffer" where
  "example_b7 =
     \<lparr>capacity = 2, alpha = 1, beta = 1, epsilon = 1/100,
      transitions = [Some example_t3, Some example_t2], priority = [3, 1],
      tree = Node 4 (Leaf 3) (Leaf 1), max_priority = 3,
      buf_size = 2, write_cursor = 1\<rparr>"

definition example_b8 :: "(nat, nat) buffer" where
  "example_b8 =
     \<lparr>capacity = 2, alpha = 1, beta = 1, epsilon = 1/100,
      transitions = [Some example_t3, Some example_t1], priority = [3, 3],
      tree = Node 6 (Leaf 3) (Leaf 3), max_priority = 3,
      buf_size = 2, write_cursor = 0\<rparr>"

definition example_r7 :: "(nat, nat) replay_buffer" where
  "example_r7 = \<lparr>core = example_b7, sampled = [1], stale = []\<rparr>"

definition example_r8 :: "(nat, nat) replay_buffer" where
  "example_r8 = \<lparr>core = example_b8, sampled = [], stale = [1]\<rparr>"

text \<open>An environment whose steps 1, 2 and 3 are the three example transitions.\<close>

definition example_step :: "nat \<Rightarrow> (nat \<times> nat \<times> real \<times> nat \<times> bool) \<times> nat" where
  "example_step w = ((w, 10 * w, (if w = 2 then 1 else 0), w + 1, w = 3), w + 1)"

section \<open>The calls that the trainer makes on the buffer\<close>

text \<open>
  Modelled from the spec: the parameters of the missing methods \<open>store\<close> and
  \<open>sample_batch\<close> as section 6 gives them, \<open>store(state, action, reward, next_state, done)\<close>
  and \<open>sample_batch(batch_size)\<close>, none of them with a default.
\<close>

definition spec_store_sig :: "param list" where
  "spec_store_sig =
     [\<lparr>pname = ''state'', pdefault = None\<rparr>,
      \<lparr>pname = ''action'', pdefault = None\<rparr>,
      \<lparr>pname = ''reward'', pdefault = None\<rparr>,
      \<lparr>pname = ''next_state'', pdefault = None\<rparr>,
      \<lparr>pname = ''done'', pdefault = None\<rparr>]"

definition spec_sample_batch_sig :: "param list" where
  "spec_sample_batch_sig = [\<lparr>pname = ''batch_size'', pdefault = None\<rparr>]"

text \<open>
  Collaborators on which the calls of the trainer can be observed: the buffer of
  \<open>recording_env\<close> is the list of the positional arguments of the last call made on it;
  the buffer of \<open>counting_env\<close> is the number of calls of \<open>update_priorities\<close> made on it,
  and its \<open>sample_batch\<close> returns the nine values that line 150 unpacks.
\<close>

definition recording_env :: "(pyval list) env" where
  "recording_env =
     \<lparr>vision_network = (\<lambda>v. Inr v),
      plan_proposal = (\<lambda>v p g. Inr (Normal [0] [1])),
      dist_sample = (\<lambda>d. Inr (Tensor [0])),
      actor = (\<lambda>params v p l g. Inr (Tensor [0])),
      critic = (\<lambda>params v p a. Inr (Tensor [0])),
      noise_tensor = Inr [0],
      torch = (\<lambda>name args. Inl RuntimeError),
      autograd = (\<lambda>name self. (Inr (), self)),
      PrioritizedReplayBuffer = (\<lambda>args kws. Inr []),
      buffer_store = (\<lambda>args kws b. (Inr NoneValue, args)),
      buffer_sample_batch = (\<lambda>args kws b. (Inr (Tuple (replicate 7 (Tuple []))), args)),
      buffer_update_priorities = (\<lambda>args kws b. (Inr NoneValue, args))\<rparr>"

definition recording_trainer :: "(pyval list) trainer" where
  "recording_trainer =
     \<lparr>actor_params = [], target_actor_params = [], critic_params = [],
      target_critic_params = [], pri_buffer = [], gamma = 0.95, tau = 0.01\<rparr>"

definition counting_env :: "nat env" where
  "counting_env =
     \<lparr>vision_network = (\<lambda>v. Inr v),
      plan_proposal = (\<lambda>v p g. Inr (Normal [0] [1])),
      dist_sample = (\<lambda>d. Inr (Tensor [0])),
      actor = (\<lambda>params v p l g. Inr (Tensor [0])),
      critic = (\<lambda>params v p a. Inr (Tensor [0])),
      noise_tensor = Inr [0],
      torch = (\<lambda>name args. Inr (Tensor [0])),
      autograd = (\<lambda>name self. (Inr (), self)),
      PrioritizedReplayBuffer = (\<lambda>args kws. Inr 0),
      buffer_store = (\<lambda>args kws b. (Inr NoneValue, b)),
      buffer_sample_batch = (\<lambda>args kws b. (Inr (Tuple (replicate 9 (Tensor [0]))), b)),
      buffer_update_priorities = (\<lambda>args kws b. (Inr NoneValue, Suc b))\<rparr>"

definition counting_trainer :: "nat trainer" where
  "counting_trainer =
     \<lparr>actor_params = [], target_actor_params = [], critic_params = [],
      target_critic_params = [], pri_buffer = 0, gamma = 0.95, tau = 0.01\<rparr>"

section \<open>Properties of the critic\<close>

lemma relu_nonneg: "list_all (\<lambda>v. 0 \<le> v) (relu x)"
  by (simp add: relu_def list_all_iff)

lemma length_relu: "length (relu x) = length x"
  by (simp add: relu_def)

lemma Linear_forward_length:
  assumes "Linear_forward l x = Inr y" and "linear_wf i out l"
  shows "length y = out"
  using assms by (auto simp: Linear_forward_def linear_wf_def split: if_splits)

lemma Critic_forward_fc4:
  assumes "Critic_forward c v p a = Inr q"
  shows "\<exists>x y. Linear_forward (fc4 c) x = Inr y \<and> q = relu y"
  using assms
  by (auto simp: Critic_forward_def bind_exn_def Let_def split: sum.splits)

text \<open>
  C10. Whatever \<open>Critic.forward\<close> returns is component-wise non-negative, being the ReLU
  of the output of \<open>fc4\<close>; its width is \<open>layer_size\<close> (1024 by default, not 1); the layer
  \<open>fc5\<close> has no influence on the result; and for a non-negative discount \<open>gamma = g\<close> (0.95 by
  default) the bootstrapped summand of the TD target of a non-terminal transition
  (\<open>done = 0\<close>) is non-negative in every component.
\<close>

theorem Critic_forward_nonneg_wide:
  assumes "Critic_forward c v p a = Inr q" and "Critic_wf layer_size c" and "0 \<le> g"
  shows "list_all (\<lambda>x. 0 \<le> x) q \<and> length q = layer_size
         \<and> Critic_forward (c\<lparr>fc5 := l\<rparr>) v p a = Inr q
         \<and> list_all (\<lambda>b. 0 \<le> b) (bootstrap_term g q 0)
         \<and> default_layer_size \<noteq> 1 \<and> 0 \<le> default_gamma"
proof -
  obtain x y where y: "Linear_forward (fc4 c) x = Inr y" and q: "q = relu y"
    using Critic_forward_fc4 [OF assms(1)] by blast
  have wf4: "linear_wf layer_size layer_size (fc4 c)"
    using assms(2) by (simp add: Critic_wf_def)
  have nonneg: "list_all (\<lambda>x. 0 \<le> x) q"
    unfolding q by (rule relu_nonneg)
  have len: "length q = layer_size"
    unfolding q using Linear_forward_length [OF y wf4] by (simp add: length_relu)
  have same: "Critic_forward (c\<lparr>fc5 := l\<rparr>) v p a = Inr q"
    using assms(1) by (simp add: Critic_forward_def)
  have boot: "list_all (\<lambda>b. 0 \<le> b) (bootstrap_term g q 0)"
    using nonneg assms(3) by (simp add: bootstrap_term_def list_all_iff)
  show ?thesis
    using nonneg len same boot by (simp add: default_layer_size_def default_gamma_def)
qed

lemma dot_replicate_zero: "dot (replicate n 0) x = 0"
  unfolding dot_def by (induction n arbitrary: x) (simp, case_tac x, auto)

lemma example_critic_wf: "Critic_wf 2 example_critic"
  by (simp add: Critic_wf_def linear_wf_def example_critic_def list_all_iff)

lemma example_critic_forward:
  "Critic_forward example_critic (replicate vision_embedding_dim 0)
     (replicate proprioception_dim 0) (replicate action_dim 0) = Inr [2, 0]"
proof -
  let ?x = "replicate vision_embedding_dim 0 @ replicate proprioception_dim 0
            @ replicate action_dim (0::real)"
  have 1: "Linear_forward (fc1 example_critic) ?x = Inr [1, -1]"
    by (simp add: Linear_forward_def example_critic_def Critic_in_features_def
        dot_replicate_zero numeral_2_eq_2)
  have 2: "Linear_forward (fc2 example_critic) [1, 0] = Inr [1, 0]"
    by (simp add: Linear_forward_def example_critic_def dot_def)
  have 3: "Linear_forward (fc3 example_critic) [1, 0] = Inr [1, 0]"
    by (simp add: Linear_forward_def example_critic_def dot_def)
  have 4: "Linear_forward (fc4 example_critic) [1, 0] = Inr [2, -3]"
    by (simp add: Linear_forward_def example_critic_def dot_def)
  show ?thesis
    by (simp add: Critic_forward_def bind_exn_def 1 2 3 4 relu_def)
qed

theorem Critic_forward_nonneg_wide_witness:
  "Critic_forward example_critic (replicate vision_embedding_dim 0)
     (replicate proprioception_dim 0) (replicate action_dim 0) = Inr [2, 0]
   \<and> Critic_wf 2 example_critic \<and> (0::real) \<le> 95 / 100
   \<and> list_all (\<lambda>x. 0 \<le> x) [2, 0::real] \<and> length [2, 0::real] = 2
   \<and> Critic_forward (example_critic\<lparr>fc5 := fc4 example_critic\<rparr>)
       (replicate vision_embedding_dim 0) (replicate proprioception_dim 0)
       (replicate action_dim 0) = Inr [2, 0]
   \<and> list_all (\<lambda>b. 0 \<le> b) (bootstrap_term (95 / 100) [2, 0] 0)"
  using Critic_forward_nonneg_wide [OF example_critic_forward example_critic_wf,
      of "95 / 100" "fc4 example_critic"]
    example_critic_forward example_critic_wf
  by simp

section \<open>Properties of the trainer\<close>

lemma soft_update_eq:
  assumes "map length targets = map length params"
  shows "soft_update t targets params =
         (Inr (), map (\<lambda>(tp, p). map (\<lambda>(pv, tv). t * pv + (1 - t) * tv) (zip p tp))
                    (zip targets params))"
  using assms
proof (induction t targets params rule: soft_update.induct)
  case (3 t target_param targets param params)
  then show ?case by (simp add: interpolate_def)
qed simp_all

lemma soft_update_nth:
  assumes "map length targets = map length params"
    and "i < length targets" and "j < length (targets ! i)"
  shows "snd (soft_update t targets params) ! i ! j
         = t * params ! i ! j + (1 - t) * targets ! i ! j"
proof -
  have len: "length targets = length params"
    using assms(1) by (metis length_map)
  have li: "length (params ! i) = length (targets ! i)"
    using assms(1,2) len by (metis nth_map)
  show ?thesis
    using assms(2,3) len li by (simp add: soft_update_eq [OF assms(1)])
qed

lemma soft_update_shape:
  assumes "map length targets = map length params"
  shows "map length (snd (soft_update t targets params)) = map length targets"
proof -
  have len: "length targets = length params"
    using assms(1) by (metis length_map)
  have "\<forall>i<length targets. length (params ! i) = length (targets ! i)"
    using assms len by (metis nth_map)
  then show ?thesis
    using len by (auto simp: soft_update_eq [OF assms(1)] intro!: nth_equalityI)
qed

text \<open>
  C8. When the parameter collections of each target network and of its source network
  have the same shapes, the target update of \<open>fine_tune\<close> (lines 178 to 181) raises
  nothing and leaves every component of every parameter of the target actor and of the
  target critic equal to \<open>tau * source + (1 - tau) * previous target\<close>; the shapes of
  the targets and the source networks are unchanged.
\<close>

theorem update_targets_interpolates:
  assumes "map length (target_actor_params self) = map length (actor_params self)"
    and "map length (target_critic_params self) = map length (critic_params self)"
  shows "fst (update_targets self) = Inr ()
     \<and> (\<forall>i<length (target_actor_params self). \<forall>j<length (target_actor_params self ! i).
          target_actor_params (snd (update_targets self)) ! i ! j
          = tau self * actor_params self ! i ! j
            + (1 - tau self) * target_actor_params self ! i ! j)
     \<and> (\<forall>i<length (target_critic_params self). \<forall>j<length (target_critic_params self ! i).
          target_critic_params (snd (update_targets self)) ! i ! j
          = tau self * critic_params self ! i ! j
            + (1 - tau self) * target_critic_params self ! i ! j)
     \<and> map length (target_actor_params (snd (update_targets self))) = map length (target_actor_params self)
     \<and> map length (target_critic_params (snd (update_targets self))) = map length (target_critic_params self)
     \<and> actor_params (snd (update_targets self)) = actor_params self
     \<and> critic_params (snd (update_targets self)) = critic_params self"
proof -
  let ?a = "soft_update (tau self) (target_actor_params self) (actor_params self)"
  let ?c = "soft_update (tau self) (target_critic_params self) (critic_params self)"
  have u: "update_targets self
           = (Inr (), self\<lparr>target_actor_params := snd ?a, target_critic_params := snd ?c\<rparr>)"
    by (simp add: update_targets_def soft_update_eq [OF assms(1)] soft_update_eq [OF assms(2)])
  show ?thesis
    using soft_update_nth [OF assms(1)] soft_update_nth [OF assms(2)]
      soft_update_shape [OF assms(1)] soft_update_shape [OF assms(2)]
    by (simp add: u)
qed

theorem update_targets_interpolates_witness:
  "map length (target_actor_params example_trainer) = map length (actor_params example_trainer)
   \<and> map length (target_critic_params example_trainer)
       = map length (critic_params example_trainer)
   \<and> update_targets example_trainer
       = (Inr (), example_trainer\<lparr>target_actor_params := [[1/100, 2/100], [102/100]],
                                  target_critic_params := [[202/100]]\<rparr>)
   \<and> target_actor_params (snd (update_targets example_trainer)) ! 1 ! 0
       = tau example_trainer * actor_params example_trainer ! 1 ! 0
         + (1 - tau example_trainer) * target_actor_params example_trainer ! 1 ! 0"
  using update_targets_interpolates [of example_trainer]
  by (simp add: example_trainer_def update_targets_def interpolate_def)

subsection \<open>Calls of get_action\<close>

lemma bind_get_action_two: "bind_args get_action_sig [goal, vision] [] = Inl TypeError"
  by (simp add: bind_args_def get_action_sig_def bind_exn_def)

lemma bind_get_action_two_greedy:
  "bind_args get_action_sig [goal, vision] [(''greedy'', g)] = Inl TypeError"
  by (simp add: bind_args_def get_action_sig_def bind_exn_def)

lemma td_target_raises:
  "td_target env self goal reward vision next_vision next_proprioception done = Inl TypeError"
  by (simp add: td_target_def get_action_def bind_get_action_two bind_exn_def)

lemma length_9:
  assumes "length xs = 9"
  shows "\<exists>a b c d e f g h i. xs = [a, b, c, d, e, f, g, h, i]"
  using assms by (auto simp: length_Suc_conv eval_nat_numeral)

text \<open>
  What \<open>fine_tune\<close> comes to: the exception of \<open>sample_batch\<close> if it raises one, the
  exception of the unpacking at line 150 if the batch has not nine items, and otherwise
  the TypeError of line 134.
\<close>

lemma fine_tune_cases:
  "fine_tune env goal self =
     (case buffer_sample_batch env [] [] (pri_buffer self) of
        (r, b) \<Rightarrow>
          (case bind_exn r iterate of
             Inl e \<Rightarrow> (Inl e, self\<lparr>pri_buffer := b\<rparr>)
           | Inr items \<Rightarrow>
               (if length items = 9 then (Inl TypeError, self\<lparr>pri_buffer := b\<rparr>)
                else (Inl ValueError, self\<lparr>pri_buffer := b\<rparr>))))"
proof -
  obtain r b where rb: "buffer_sample_batch env [] [] (pri_buffer self) = (r, b)"
    by (cases "buffer_sample_batch env [] [] (pri_buffer self)")
  show ?thesis
  proof (cases "bind_exn r iterate")
    case (Inl e)
    then show ?thesis
      using rb
      by (auto simp: fine_tune_def bind_st_def on_pri_buffer_def pure_st_def unpack_def
          bind_exn_def split: sum.splits)
  next
    case (Inr items)
    then obtain batch where r: "r = Inr batch" and it: "iterate batch = Inr items"
      by (auto simp: bind_exn_def split: sum.splits)
    show ?thesis
    proof (cases "length items = 9")
      case True
      then obtain a b c d e f g h i where "items = [a, b, c, d, e, f, g, h, i]"
        using length_9 by blast
      then show ?thesis
        using rb r it
        by (simp add: fine_tune_def bind_st_def on_pri_buffer_def pure_st_def unpack_def
            bind_exn_def td_target_raises)
    next
      case False
      then show ?thesis
        using rb r it
        by (simp add: fine_tune_def bind_st_def on_pri_buffer_def pure_st_def unpack_def
            bind_exn_def)
    qed
  qed
qed

text \<open>
  C4. Whatever the collaborators do and whatever the trainer holds, \<open>fine_tune\<close> ends in
  an exception, and the parameters of the actor, the critic and the two target networks
  are afterwards what they were before. Both calls of \<open>get_action\<close> made on the way,
  \<open>self.get_action(goal, vision)\<close> in \<open>td_target\<close> and
  \<open>self.get_action(goal, vision, greedy=False)\<close> at line 163, are TypeErrors, the
  parameter \<open>proprioception\<close> having no argument; and \<open>backward\<close> on the module that
  \<open>torch.nn.MSELoss(current_q, target_q)\<close> constructs is an AttributeError.
\<close>

theorem fine_tune_always_raises:
  "(\<exists>e. fst (fine_tune env goal self) = Inl e)
   \<and> actor_params (snd (fine_tune env goal self)) = actor_params self
   \<and> critic_params (snd (fine_tune env goal self)) = critic_params self
   \<and> target_actor_params (snd (fine_tune env goal self)) = target_actor_params self
   \<and> target_critic_params (snd (fine_tune env goal self)) = target_critic_params self
   \<and> td_target env self goal reward vision next_vision next_proprioception done = Inl TypeError
   \<and> get_action env self [goal, vision] [] = Inl TypeError
   \<and> get_action env self [goal, vision] [(''greedy'', PyBool False)] = Inl TypeError
   \<and> backward env name Module self = (Inl AttributeError, self)"
  by (auto simp: fine_tune_cases get_action_def bind_get_action_two bind_get_action_two_greedy
      td_target_raises bind_exn_def backward_def split: sum.splits prod.splits)

text \<open>On the example, where \<open>sample_batch\<close> returns nine sequences.\<close>

lemma fine_tune_example:
  "fine_tune example_env goal example_trainer = (Inl TypeError, example_trainer)"
  by (simp add: fine_tune_cases example_env_def example_trainer_def bind_exn_def)

subsection \<open>The range of actions\<close>

lemma np_clip_bounds: "lo \<le> hi \<Longrightarrow> list_all (\<lambda>x. lo \<le> x \<and> x \<le> hi) (np_clip a lo hi)"
  by (auto simp: np_clip_def list_all_iff)

lemma clamp_bounds: "lo \<le> hi \<Longrightarrow> list_all (\<lambda>x. lo \<le> x \<and> x \<le> hi) (clamp lo hi a)"
  by (auto simp: clamp_def list_all_iff)

lemma get_action_body_result:
  assumes "get_action_body env self bs = Inr r"
  shows "\<exists>a. r = NDArray (np_clip a (-1) 1)"
  using assms
  by (auto simp: get_action_body_def bind_exn_def split: sum.splits)

lemma get_action_returns_clipped:
  assumes "get_action env self args kws = Inr r"
  shows "\<exists>a. r = NDArray a \<and> list_all (\<lambda>x. -1 \<le> x \<and> x \<le> 1) a"
proof -
  obtain bs where "get_action_body env self bs = Inr r"
    using assms by (auto simp: get_action_def bind_exn_def split: sum.splits)
  then obtain a where "r = NDArray (np_clip a (-1) 1)"
    using get_action_body_result by blast
  moreover have "list_all (\<lambda>x. -1 \<le> x \<and> x \<le> 1) (np_clip a (-1) 1)"
    by (rule np_clip_bounds) simp
  ultimately show ?thesis by blast
qed

lemma LogisticMixture_sample_clamped:
  "list_all (\<lambda>x. -1 \<le> x \<and> x \<le> 1) (LogisticMixture_sample drawn)"
  unfolding LogisticMixture_sample_def Let_def by (rule clamp_bounds) simp

text \<open>With an actor that returns a tensor, as line 75 takes it to.\<close>

lemma get_action_example:
  "get_action example_env example_trainer [Tensor [0], Tensor [0], Tensor [0]] []
   = Inr (NDArray [1, -1, 6/10])"
  by (simp add: get_action_def get_action_body_def bind_args_def get_action_sig_def
      bind_exn_def arg_def example_env_def add_noise_def detach_cpu_numpy_def np_clip_def)

lemma get_action_example_greedy:
  "get_action example_env example_trainer [Tensor [0], Tensor [0], Tensor [0]]
     [(''greedy'', PyBool True)] = Inr (NDArray [1, -1, 1/2])"
  by (simp add: get_action_def get_action_body_def bind_args_def get_action_sig_def
      bind_exn_def arg_def example_env_def add_noise_def detach_cpu_numpy_def np_clip_def)





section \<open>Properties of the replay buffer\<close>

subsection \<open>The sum tree\<close>

lemma length_leaf_values: "length (leaf_values t) = leaves t"
  by (induction t) auto

lemma leaves_pos: "0 < leaves t"
  by (induction t) auto

lemma get_leaf_nth: "i < leaves t \<Longrightarrow> get_leaf t i = leaf_values t ! i"
  by (induction t arbitrary: i) (auto simp: nth_append length_leaf_values)

lemma leaves_set_leaf: "leaves (set_leaf t i v) = leaves t"
  by (induction t arbitrary: i) auto

lemma leaf_values_set_leaf:
  "i < leaves t \<Longrightarrow> leaf_values (set_leaf t i v) = (leaf_values t)[i := v]"
  by (induction t arbitrary: i) (auto simp: list_update_append length_leaf_values)

lemma total_set_leaf: "tree_total (set_leaf t i v) = tree_total t + (v - get_leaf t i)"
  by (cases t) auto

lemma sums_ok_set_leaf: "sums_ok t \<Longrightarrow> sums_ok (set_leaf t i v)"
  by (induction t arbitrary: i) (auto simp: total_set_leaf)

lemma total_sum_list: "sums_ok t \<Longrightarrow> tree_total t = sum_list (leaf_values t)"
  by (induction t) auto

declare build.simps [simp del]

lemma build_props:
  "leaves (build n) = max 1 n \<and> leaf_values (build n) = replicate (max 1 n) 0
   \<and> sums_ok (build n) \<and> tree_total (build n) = 0"
proof (induction n rule: build.induct)
  case (1 n)
  show ?case
  proof (cases "n \<le> 1")
    case True
    then show ?thesis by (subst (1 2 3 4) build.simps) simp
  next
    case False
    then have "max 1 (n div 2) + max 1 (n - n div 2) = n" by (auto simp: max_def)
    then show ?thesis
      using False 1
      by (subst (1 2 3 4) build.simps) (simp add: replicate_add [symmetric])
  qed
qed

lemma sample_one_positive:
  assumes "sums_ok t" and "\<forall>v\<in>set (leaf_values t). 0 \<le> v" and "0 \<le> u" and "u < tree_total t"
  shows "sample_one t u < leaves t \<and> 0 < leaf_values t ! sample_one t u"
  using assms
proof (induction t arbitrary: u)
  case (Leaf v)
  then show ?case by simp
next
  case (Node s l r)
  show ?case
  proof (cases "u < tree_total l")
    case True
    then have "sample_one l u < leaves l \<and> 0 < leaf_values l ! sample_one l u"
      using Node.IH(1) [of u] Node.prems by simp
    then show ?thesis using True by (simp add: nth_append length_leaf_values)
  next
    case False
    then have "sample_one r (u - tree_total l) < leaves r
               \<and> 0 < leaf_values r ! sample_one r (u - tree_total l)"
      using Node.IH(2) [of "u - tree_total l"] Node.prems by simp
    then show ?thesis using False by (simp add: nth_append length_leaf_values)
  qed
qed

subsection \<open>The circular store\<close>

lemma store_result:
  assumes "0 < capacity buf" and "length (transitions buf) = capacity buf"
    and "0 \<le> max_priority buf"
  shows "\<exists>buf'. store t buf = Inr buf'
     \<and> transitions buf' = (transitions buf)[write_cursor buf mod capacity buf := Some t]
     \<and> write_cursor buf' = (write_cursor buf + 1) mod capacity buf
     \<and> buf_size buf' = min (buf_size buf + 1) (capacity buf)
     \<and> capacity buf' = capacity buf \<and> 0 \<le> max_priority buf'"
  using assms
  by (auto simp: store_def set_priority_def put_def get_def bind_exn_def Let_def)

lemma holds_last_store:
  assumes "holds_last buf c xs"
  shows "\<exists>buf'. store t buf = Inr buf' \<and> holds_last buf' c (xs @ [t])"
proof -
  from assms have c: "0 < c" and cap: "capacity buf = c" and len: "length (transitions buf) = c"
    and cur: "write_cursor buf = length xs mod c" and sz: "buf_size buf = min (length xs) c"
    and mp: "0 \<le> max_priority buf"
    and old: "\<And>k. k < length xs \<Longrightarrow> length xs - k \<le> c \<Longrightarrow> transitions buf ! (k mod c) = Some (xs ! k)"
    by (auto simp: holds_last_def)
  obtain buf' where s: "store t buf = Inr buf'"
    and tr: "transitions buf' = (transitions buf)[write_cursor buf mod capacity buf := Some t]"
    and cur': "write_cursor buf' = (write_cursor buf + 1) mod capacity buf"
    and sz': "buf_size buf' = min (buf_size buf + 1) (capacity buf)"
    and cap': "capacity buf' = capacity buf" and mp': "0 \<le> max_priority buf'"
    using store_result [of buf t] c cap len mp by auto
  have tr2: "transitions buf' = (transitions buf)[length xs mod c := Some t]"
    using tr cur cap by simp
  have new: "transitions buf' ! (k mod c) = Some ((xs @ [t]) ! k)"
    if k: "k < length (xs @ [t])" and near: "length (xs @ [t]) - k \<le> c" for k
  proof (cases "k = length xs")
    case True
    then show ?thesis using tr2 len c by simp
  next
    case False
    then have kl: "k < length xs" using k by simp
    have "k mod c \<noteq> length xs mod c"
    proof
      assume eq: "k mod c = length xs mod c"
      have "length xs - k < c" using near kl by simp
      moreover have "(length xs - k) mod c = 0"
        using eq kl by (metis less_imp_le_nat mod_eq_dvd_iff_nat mod_0_imp_dvd dvd_imp_mod_0 mod_self)
      ultimately show False using kl by simp
    qed
    then have "transitions buf' ! (k mod c) = transitions buf ! (k mod c)"
      using tr2 by simp
    also have "\<dots> = Some (xs ! k)" using old [OF kl] near by simp
    finally show ?thesis using kl by (simp add: nth_append)
  qed
  have "holds_last buf' c (xs @ [t])"
    unfolding holds_last_def
    using c cap cap' len tr2 cur cur' sz sz' mp' new
    by (auto simp: mod_Suc min_def)
  then show ?thesis using s by blast
qed

lemma holds_last_store_all:
  assumes "holds_last buf c xs"
  shows "\<exists>buf'. store_all ts buf = Inr buf' \<and> holds_last buf' c (xs @ ts)"
  using assms
proof (induction ts arbitrary: buf xs)
  case Nil
  then show ?case by simp
next
  case (Cons t ts)
  obtain buf1 where 1: "store t buf = Inr buf1" and h1: "holds_last buf1 c (xs @ [t])"
    using holds_last_store [OF Cons.prems] by blast
  obtain buf' where "store_all ts buf1 = Inr buf'" and "holds_last buf' c ((xs @ [t]) @ ts)"
    using Cons.IH [OF h1] by blast
  then show ?case using 1 by (simp add: bind_exn_def)
qed

lemma holds_last_new:
  assumes "0 < c"
  shows "\<exists>buf0. new_buffer (int c) a b e = Inr buf0 \<and> holds_last buf0 c []"
  using assms by (simp add: new_buffer_def holds_last_def)

text \<open>
  C2. For every capacity \<open>c > 0\<close> and every sequence \<open>ts\<close> of more than \<open>c\<close> transitions,
  the stores into a fresh buffer all succeed, and afterwards the size is \<open>c\<close>, the cursor
  is the number of stores modulo \<open>c\<close>, reading the slots from the cursor on (oldest
  first) gives exactly the last \<open>c\<close> transitions in the order they were stored, and no
  other slot can be read.
\<close>

theorem store_capacity_invariant:
  assumes "0 < c" and "c < length ts"
  shows "\<exists>buf0 buf. new_buffer (int c) a b e = Inr buf0 \<and> store_all ts buf0 = Inr buf
       \<and> buf_size buf = c \<and> capacity buf = c \<and> write_cursor buf = length ts mod c
       \<and> map (\<lambda>j. get buf ((write_cursor buf + j) mod c)) [0..<c]
           = map Inr (drop (length ts - c) ts)
       \<and> (\<forall>slot. (\<exists>t. get buf slot = Inr t) \<longrightarrow> slot < c)"
proof -
  obtain buf0 :: "('a, 'b) buffer" where 0: "new_buffer (int c) a b e = Inr buf0" and h0: "holds_last buf0 c []"
    using holds_last_new [OF assms(1)] by blast
  obtain buf where 1: "store_all ts buf0 = Inr buf" and h: "holds_last buf c ts"
    using holds_last_store_all [OF h0, of ts] by auto
  let ?n = "length ts"
  have len: "length (transitions buf) = c" and cur: "write_cursor buf = ?n mod c"
    and sz: "buf_size buf = c" and cap: "capacity buf = c"
    using h assms(2) by (auto simp: holds_last_def)
  have slot: "get buf ((write_cursor buf + j) mod c) = Inr (ts ! (?n - c + j))" if j: "j < c" for j
  proof -
    let ?k = "?n - c + j"
    have k: "?k < ?n" and near: "?n - ?k \<le> c" using j assms(2) by auto
    have "?k + c = ?n + j" using assms(2) by simp
    then have "?k mod c = (?n + j) mod c"
      by (metis mod_add_self2)
    then have km: "?k mod c = (write_cursor buf + j) mod c"
      using cur by (simp add: mod_add_left_eq)
    have "transitions buf ! (?k mod c) = Some (ts ! ?k)"
      using h k near by (simp add: holds_last_def)
    then show ?thesis
      using km len assms(1) by (simp add: get_def)
  qed
  have read: "map (\<lambda>j. get buf ((write_cursor buf + j) mod c)) [0..<c]
              = map Inr (drop (?n - c) ts)"
    using assms(2) slot by (auto intro!: nth_equalityI)
  have only: "\<forall>slot. (\<exists>t. get buf slot = Inr t) \<longrightarrow> slot < c"
    using len by (auto simp: get_def split: if_splits)
  show ?thesis
    using 0 1 sz cap cur read only by blast
qed

lemma build_2: "build 2 = Node 0 (Leaf 0) (Leaf 0)"
proof -
  have "build 1 = Leaf 0" by (subst build.simps) simp
  then show ?thesis by (subst build.simps) simp
qed

lemma replicate_2: "replicate 2 x = [x, x]"
  by (simp add: numeral_2_eq_2)

lemma new_buffer_example: "new_buffer 2 1 1 (1/100) = Inr example_b0"
  by (simp add: new_buffer_def example_b0_def build_2 replicate_2)

lemma store_example_1: "store example_t1 example_b0 = Inr example_b1"
  by (simp add: example_b0_def example_b1_def store_def set_priority_def put_def get_def
      bind_exn_def Let_def)

lemma store_example_2: "store example_t2 example_b1 = Inr example_b2"
  by (simp add: example_b1_def example_b2_def store_def set_priority_def put_def get_def
      bind_exn_def Let_def)

lemma store_example_3: "store example_t3 example_b2 = Inr example_b3"
  by (simp add: example_b2_def example_b3_def store_def set_priority_def put_def get_def
      bind_exn_def Let_def)

lemma store_all_example:
  "store_all [example_t1, example_t2, example_t3] example_b0 = Inr example_b3"
  by (simp add: store_example_1 store_example_2 store_example_3 bind_exn_def)

theorem store_capacity_invariant_witness:
  "(0::nat) < 2 \<and> 2 < length [example_t1, example_t2, example_t3]
   \<and> (\<exists>buf0 buf. new_buffer (int 2) 1 1 (1/100) = Inr buf0
         \<and> store_all [example_t1, example_t2, example_t3] buf0 = Inr buf
         \<and> buf = example_b3 \<and> buf_size buf = 2 \<and> write_cursor buf = 1
         \<and> map (\<lambda>j. get buf ((write_cursor buf + j) mod 2)) [0..<2]
             = map Inr [example_t2, example_t3])"
  using store_capacity_invariant [of 2 "[example_t1, example_t2, example_t3]" 1 1 "1/100"]
    new_buffer_example store_all_example
  by (simp add: example_b3_def)

subsection \<open>The states of the buffer\<close>

lemma set_priority_Inr:
  assumes "set_priority s p buf = Inr buf'"
  shows "0 \<le> p \<and> s < length (transitions buf) \<and> transitions buf ! s \<noteq> None
     \<and> buf' = buf\<lparr>priority := (priority buf)[s := max p (epsilon buf)],
                  tree := set_leaf (tree buf) s (max p (epsilon buf) powr alpha buf),
                  max_priority := max (max_priority buf) (max p (epsilon buf))\<rparr>"
  using assms
  by (auto simp: set_priority_def get_def Let_def split: if_splits sum.splits option.splits)

lemma set_priority_total:
  assumes "s < length (transitions buf)" and "transitions buf ! s \<noteq> None" and "0 \<le> p"
  shows "\<exists>buf'. set_priority s p buf = Inr buf'"
  using assms by (auto simp: set_priority_def get_def Let_def)

lemma inv_written:
  assumes "buffer_inv buf" and "s < length (transitions buf)" and "transitions buf ! s \<noteq> None"
  shows "s < buf_size buf"
  using assms unfolding buffer_inv_def by (metis not_le_imp_less)

lemma inv_set_priority:
  assumes "buffer_inv buf" and "set_priority s p buf = Inr buf'"
  shows "buffer_inv buf'"
proof -
  let ?p = "max p (epsilon buf)"
  from set_priority_Inr [OF assms(2)]
  have s: "s < length (transitions buf)" and w: "transitions buf ! s \<noteq> None"
    and b: "buf' = buf\<lparr>priority := (priority buf)[s := ?p],
                  tree := set_leaf (tree buf) s (?p powr alpha buf),
                  max_priority := max (max_priority buf) ?p\<rparr>"
    by auto
  have ss: "s < buf_size buf" using inv_written [OF assms(1) s w] .
  have sc: "s < capacity buf" using s assms(1) by (simp add: buffer_inv_def)
  have lv: "leaf_values (tree buf') = map (\<lambda>p. p powr alpha buf') (priority buf')"
    using assms(1) sc by (simp add: b buffer_inv_def leaf_values_set_leaf map_update)
  have wr: "\<forall>i<buf_size buf'. transitions buf' ! i \<noteq> None
            \<and> epsilon buf' \<le> priority buf' ! i \<and> priority buf' ! i \<le> max_priority buf'"
  proof (intro allI impI)
    fix i assume "i < buf_size buf'"
    then have i: "i < buf_size buf" by (simp add: b)
    then have "transitions buf ! i \<noteq> None" "epsilon buf \<le> priority buf ! i"
      "priority buf ! i \<le> max_priority buf"
      using assms(1) by (auto simp: buffer_inv_def)
    moreover have "s < length (priority buf)" using sc assms(1) by (simp add: buffer_inv_def)
    ultimately show "transitions buf' ! i \<noteq> None
            \<and> epsilon buf' \<le> priority buf' ! i \<and> priority buf' ! i \<le> max_priority buf'"
      by (auto simp: b nth_list_update)
  qed
  have un: "\<forall>i<capacity buf'. buf_size buf' \<le> i \<longrightarrow>
              transitions buf' ! i = None \<and> priority buf' ! i = 0"
    using assms(1) ss by (auto simp: b buffer_inv_def)
  show ?thesis
    unfolding buffer_inv_def
    using assms(1) lv wr un
    by (simp add: b buffer_inv_def leaves_set_leaf sums_ok_set_leaf)
qed


lemma inv_new:
  assumes "0 < c" and "0 < e"
  shows "\<exists>buf. new_buffer (int c) a b e = Inr buf \<and> buffer_inv buf"
  using assms build_props [of c]
  by (simp add: new_buffer_def buffer_inv_def max_def)

lemma store_explicit:
  assumes "0 < capacity buf" and "length (transitions buf) = capacity buf"
    and "buf_size buf = 0 \<or> 0 \<le> max_priority buf"
    and "slot = write_cursor buf mod capacity buf"
    and "p = max (if buf_size buf = 0 then 1 else max_priority buf) (epsilon buf)"
  shows "store t buf = Inr (buf\<lparr>transitions := (transitions buf)[slot := Some t],
             priority := (priority buf)[slot := p],
             tree := set_leaf (tree buf) slot (p powr alpha buf),
             max_priority := max (max_priority buf) p,
             write_cursor := (write_cursor buf + 1) mod capacity buf,
             buf_size := min (buf_size buf + 1) (capacity buf)\<rparr>)"
  using assms
  by (auto simp: store_def set_priority_def put_def get_def bind_exn_def Let_def)

lemma inv_max_priority_nonneg:
  assumes "buffer_inv buf"
  shows "buf_size buf = 0 \<or> 0 \<le> max_priority buf"
proof (cases "buf_size buf = 0")
  case False
  then have "epsilon buf \<le> priority buf ! 0 \<and> priority buf ! 0 \<le> max_priority buf"
    using assms by (simp add: buffer_inv_def)
  moreover have "0 < epsilon buf" using assms by (simp add: buffer_inv_def)
  ultimately show ?thesis by linarith
qed simp


lemma inv_store:
  assumes "buffer_inv buf"
  shows "\<exists>buf'. store t buf = Inr buf' \<and> buffer_inv buf'"
proof -
  let ?slot = "write_cursor buf mod capacity buf"
  let ?p = "max (if buf_size buf = 0 then 1 else max_priority buf) (epsilon buf)"
  let ?buf' = "buf\<lparr>transitions := (transitions buf)[?slot := Some t],
             priority := (priority buf)[?slot := ?p],
             tree := set_leaf (tree buf) ?slot (?p powr alpha buf),
             max_priority := max (max_priority buf) ?p,
             write_cursor := (write_cursor buf + 1) mod capacity buf,
             buf_size := min (buf_size buf + 1) (capacity buf)\<rparr>"
  have c: "0 < capacity buf" and lt: "length (transitions buf) = capacity buf"
    and lp: "length (priority buf) = capacity buf" and wc: "write_cursor buf < capacity buf"
    and sz: "buf_size buf \<le> capacity buf"
    and cs: "buf_size buf = capacity buf \<or> write_cursor buf = buf_size buf"
    and e: "0 < epsilon buf"
    using assms by (auto simp: buffer_inv_def)
  have slot: "?slot = write_cursor buf" using wc by simp
  have s: "store t buf = Inr ?buf'"
    using store_explicit [OF c lt inv_max_priority_nonneg [OF assms] refl refl] .
  have lv: "leaf_values (tree ?buf') = map (\<lambda>p. p powr alpha ?buf') (priority ?buf')"
    using assms wc by (simp add: slot buffer_inv_def leaf_values_set_leaf map_update)
  have old: "\<And>i. i < buf_size buf \<Longrightarrow> transitions buf ! i \<noteq> None
            \<and> epsilon buf \<le> priority buf ! i \<and> priority buf ! i \<le> max_priority buf"
    using assms by (simp add: buffer_inv_def)
  have wr: "\<forall>i<buf_size ?buf'. transitions ?buf' ! i \<noteq> None
            \<and> epsilon ?buf' \<le> priority ?buf' ! i \<and> priority ?buf' ! i \<le> max_priority ?buf'"
  proof (intro allI impI)
    fix i assume i: "i < buf_size ?buf'"
    show "transitions ?buf' ! i \<noteq> None
            \<and> epsilon ?buf' \<le> priority ?buf' ! i \<and> priority ?buf' ! i \<le> max_priority ?buf'"
    proof (cases "i = write_cursor buf")
      case True
      then show ?thesis using wc lt lp by (simp add: slot)
    next
      case False
      then have "i < buf_size buf" using i cs sz by (auto simp: min_def split: if_splits)
      then show ?thesis using old [of i] False wc lt lp by (auto simp: slot)
    qed
  qed
  have un: "\<forall>i<capacity ?buf'. buf_size ?buf' \<le> i \<longrightarrow>
              transitions ?buf' ! i = None \<and> priority ?buf' ! i = 0"
  proof (intro allI impI)
    fix i assume i: "i < capacity ?buf'" and ge: "buf_size ?buf' \<le> i"
    then have "buf_size buf < capacity buf" by (auto simp: min_def split: if_splits)
    then have "write_cursor buf = buf_size buf" using cs by simp
    moreover have "buf_size buf < i" using ge \<open>buf_size buf < capacity buf\<close> by simp
    ultimately show "transitions ?buf' ! i = None \<and> priority ?buf' ! i = 0"
      using assms i by (simp add: slot buffer_inv_def)
  qed
  have cur: "buf_size ?buf' = capacity ?buf' \<or> write_cursor ?buf' = buf_size ?buf'"
    using cs sz wc by (auto simp: min_def mod_Suc)
  have "buffer_inv ?buf'"
    unfolding buffer_inv_def
    using assms lv wr un cur c
    by (simp add: buffer_inv_def leaves_set_leaf sums_ok_set_leaf)
  then show ?thesis using s by blast
qed

subsection \<open>Priority updates\<close>

lemma set_priorities_fold:
  assumes "set_priorities ss es buf = Inr buf'"
  shows "priority buf' = fold (\<lambda>(s, e) pr. pr[s := \<bar>e\<bar> + epsilon buf]) (zip ss es) (priority buf)
         \<and> epsilon buf' = epsilon buf"
  using assms
proof (induction ss es buf rule: set_priorities.induct)
  case (1 slot slots error errors buf)
  then obtain b1 where b1: "set_priority slot (\<bar>error\<bar> + epsilon buf) buf = Inr b1"
      and rest: "set_priorities slots errors b1 = Inr buf'"
    by (auto simp: bind_exn_def split: sum.splits)
  have e1: "epsilon b1 = epsilon buf"
    and p1: "priority b1 = (priority buf)[slot := \<bar>error\<bar> + epsilon buf]"
    using set_priority_Inr [OF b1] by (auto simp: max_def)
  show ?case using "1.IH" [OF rest] e1 p1 by simp
qed simp_all

lemma set_priorities_inv:
  assumes "buffer_inv buf" and "set_priorities ss es buf = Inr buf'"
  shows "buffer_inv buf'"
  using assms
proof (induction ss es buf rule: set_priorities.induct)
  case (1 slot slots error errors buf)
  then obtain b1 where b1: "set_priority slot (\<bar>error\<bar> + epsilon buf) buf = Inr b1"
      and rest: "set_priorities slots errors b1 = Inr buf'"
    by (auto simp: bind_exn_def split: sum.splits)
  show ?case using "1.IH" [OF inv_set_priority [OF "1.prems"(1) b1] rest] .
qed simp_all

lemma set_priorities_total:
  assumes "buffer_inv buf" and "\<forall>s\<in>set ss. s < buf_size buf"
  shows "\<exists>buf'. set_priorities ss es buf = Inr buf'"
  using assms
proof (induction ss es buf rule: set_priorities.induct)
  case (1 slot slots error errors buf)
  have s: "slot < buf_size buf" using "1.prems"(2) by simp
  then have "slot < length (transitions buf)" "transitions buf ! slot \<noteq> None"
    "0 \<le> \<bar>error\<bar> + epsilon buf"
    using "1.prems"(1) by (auto simp: buffer_inv_def)
  then obtain b1 where b1: "set_priority slot (\<bar>error\<bar> + epsilon buf) buf = Inr b1"
    using set_priority_total by blast
  have sz: "buf_size b1 = buf_size buf" using set_priority_Inr [OF b1] by auto
  have "\<exists>buf'. set_priorities slots errors b1 = Inr buf'"
    using "1.IH" [OF inv_set_priority [OF "1.prems"(1) b1]] "1.prems"(2) sz by simp
  then show ?case using b1 by (simp add: bind_exn_def)
qed simp_all

lemma fold_update_other:
  assumes "s \<notin> fst ` set ps"
  shows "fold (\<lambda>(s, e) pr. pr[s := f e]) ps pr ! s = pr ! s"
  using assms by (induction ps arbitrary: pr) (auto split: prod.splits)

lemma fold_update_length:
  "length (fold (\<lambda>(s, e) pr. pr[s := f e]) ps pr) = length pr"
  by (induction ps arbitrary: pr) (auto split: prod.splits)

lemma fold_update_last:
  assumes "i < length ps" and "fst (ps ! i) \<notin> fst ` set (drop (Suc i) ps)"
    and "fst (ps ! i) < length pr"
  shows "fold (\<lambda>(s, e) pr. pr[s := f e]) ps pr ! fst (ps ! i) = f (snd (ps ! i))"
  using assms
proof (induction ps arbitrary: i pr)
  case Nil
  then show ?case by simp
next
  case (Cons q ps)
  show ?case
  proof (cases i)
    case 0
    then show ?thesis
      using Cons.prems fold_update_other [of "fst q" ps f]
      by (cases q) auto
  next
    case (Suc j)
    then show ?thesis
      using Cons.prems Cons.IH [of j] by (cases q) auto
  qed
qed

text \<open>A slot that no other pair of the call names is not named by a later pair.\<close>

lemma named_once_not_later:
  assumes "\<forall>j<length slots. j < length errors \<longrightarrow> j \<noteq> i \<longrightarrow> slots ! j \<noteq> slots ! i"
  shows "slots ! i \<notin> fst ` set (drop (Suc i) (zip slots errors))"
proof
  assume "slots ! i \<in> fst ` set (drop (Suc i) (zip slots errors))"
  then obtain q where q: "q \<in> set (drop (Suc i) (zip slots errors))" and f: "fst q = slots ! i"
    by auto
  then obtain k where k: "k < length (drop (Suc i) (zip slots errors))"
    and qk: "drop (Suc i) (zip slots errors) ! k = q"
    by (auto simp: in_set_conv_nth)
  let ?j = "Suc i + k"
  have j: "?j < length slots" "?j < length errors" using k by auto
  then have "q = (slots ! ?j, errors ! ?j)" using qk k by simp
  then have "slots ! ?j = slots ! i" using f by simp
  moreover have "?j \<noteq> i" by simp
  ultimately show False using assms j by blast
qed

text \<open>The check of stale slots, and what the call does when it passes.\<close>

lemma update_priorities_stale:
  assumes "i < length slots" and "i < length errors" and "slots ! i \<in> set (stale rb)"
  shows "update_priorities slots errors rb = Inl UnknownSlot"
proof -
  have "(slots ! i, errors ! i) \<in> set (zip slots errors)"
    using assms(1,2) by (auto simp: in_set_conv_nth intro!: exI [of _ i])
  then have "list_ex (\<lambda>(slot, error). slot \<in> set (stale rb)) (zip slots errors)"
    using assms(3) by (auto simp: list_ex_iff)
  then show ?thesis by (simp add: update_priorities_def)
qed

lemma update_priorities_fresh:
  assumes "\<forall>s\<in>set slots. s \<notin> set (stale rb)"
  shows "update_priorities slots errors rb
         = bind_exn (set_priorities slots errors (core rb)) (\<lambda>buf'. Inr (rb\<lparr>core := buf'\<rparr>))"
proof -
  have "\<not> list_ex (\<lambda>(slot, error). slot \<in> set (stale rb)) (zip slots errors)"
    using assms by (auto simp: list_ex_iff dest: set_zip_leftD)
  then show ?thesis by (simp add: update_priorities_def)
qed

lemma update_priorities_inv:
  assumes "buffer_inv (core rb)" and "update_priorities slots errors rb = Inr rb'"
  shows "buffer_inv (core rb')"
proof -
  obtain buf' where "set_priorities slots errors (core rb) = Inr buf'" and "rb' = rb\<lparr>core := buf'\<rparr>"
    using assms(2)
    by (auto simp: update_priorities_def bind_exn_def split: if_splits sum.splits)
  then show ?thesis using set_priorities_inv [OF assms(1)] by simp
qed

text \<open>
  Every operation on the whole buffer leaves its store and index in a state of
  \<open>buffer_inv\<close>.
\<close>

lemma new_replay_buffer_inv:
  assumes "0 < c" and "0 < e"
  shows "\<exists>rb :: ('s, 'a) replay_buffer.
           new_replay_buffer (int c) a b e = Inr rb \<and> buffer_inv (core rb)
           \<and> sampled rb = [] \<and> stale rb = []"
proof -
  obtain buf :: "('s, 'a) buffer" where "new_buffer (int c) a b e = Inr buf" and "buffer_inv buf"
    using inv_new [OF assms] by blast
  then show ?thesis by (simp add: new_replay_buffer_def bind_exn_def)
qed

lemma replay_store_inv:
  assumes "buffer_inv (core rb)"
  shows "\<exists>rb'. replay_store t rb = Inr rb' \<and> store t (core rb) = Inr (core rb')
              \<and> buffer_inv (core rb')"
proof -
  obtain buf' where s: "store t (core rb) = Inr buf'" and inv: "buffer_inv buf'"
    using inv_store [OF assms] by blast
  then show ?thesis by (simp add: replay_store_def bind_exn_def Let_def)
qed

lemma replay_sample_batch_core:
  assumes "replay_sample_batch n rng rb = Inr (b, rb')"
  shows "core rb' = core rb \<and> sample_batch n rng (core rb) = Inr b"
  using assms by (auto simp: replay_sample_batch_def bind_exn_def split: sum.splits)

text \<open>
  C1 (amended). In a buffer state that the operations produce, let every slot that a
  call of \<open>update_priorities\<close> names hold a transition and not be stale, that is, not
  overwritten since \<open>sample_batch\<close> returned it. Then the call returns, and for every
  pair \<open>(slot, error)\<close> whose slot no other pair of the call names, the priority stored
  for the slot afterwards is \<open>|error| + epsilon\<close>: positive, whatever the sign of the
  error. The record of sampled and stale slots is as before.
\<close>

theorem update_priorities_single_pair:
  assumes "buffer_inv (core rb)"
    and "\<forall>s\<in>set slots. s < buf_size (core rb) \<and> s \<notin> set (stale rb)"
    and "i < length slots" and "i < length errors"
    and "\<forall>j<length slots. j < length errors \<longrightarrow> j \<noteq> i \<longrightarrow> slots ! j \<noteq> slots ! i"
  shows "\<exists>rb'. update_priorities slots errors rb = Inr rb'
     \<and> set_priorities slots errors (core rb) = Inr (core rb')
     \<and> priority (core rb') ! (slots ! i) = \<bar>errors ! i\<bar> + epsilon (core rb)
     \<and> 0 < priority (core rb') ! (slots ! i)
     \<and> sampled rb' = sampled rb \<and> stale rb' = stale rb
     \<and> buffer_inv (core rb')"
proof -
  let ?buf = "core rb"
  have w: "\<forall>s\<in>set slots. s < buf_size ?buf" and f: "\<forall>s\<in>set slots. s \<notin> set (stale rb)"
    using assms(2) by auto
  obtain buf' where u: "set_priorities slots errors ?buf = Inr buf'"
    using set_priorities_total [OF assms(1) w] by blast
  have call: "update_priorities slots errors rb = Inr (rb\<lparr>core := buf'\<rparr>)"
    using update_priorities_fresh [OF f, of errors] u by (simp add: bind_exn_def)
  let ?ps = "zip slots errors"
  have i: "i < length ?ps" using assms(3,4) by simp
  have pi: "?ps ! i = (slots ! i, errors ! i)" using assms(3,4) by simp
  have "slots ! i < buf_size ?buf" using w assms(3) by simp
  then have r: "slots ! i < length (priority ?buf)"
    using assms(1) by (simp add: buffer_inv_def)
  have "priority buf' ! (slots ! i) = \<bar>errors ! i\<bar> + epsilon ?buf"
    using fold_update_last [of i ?ps "priority ?buf" "\<lambda>e. \<bar>e\<bar> + epsilon ?buf"] i pi
      named_once_not_later [OF assms(5)] r set_priorities_fold [OF u]
    by simp
  moreover have "0 < epsilon ?buf" using assms(1) by (simp add: buffer_inv_def)
  ultimately show ?thesis
    using call u set_priorities_inv [OF assms(1) u] by auto
qed

lemma all_less_2: "(\<forall>i<2. P i) = (P 0 \<and> P (Suc 0))"
  by (auto simp: numeral_2_eq_2 less_Suc_eq)

lemma buffer_inv_example_b2: "buffer_inv example_b2"
  by (simp add: buffer_inv_def example_b2_def all_less_2)

lemma set_priority_example_1:
  "set_priority 0 (\<bar>1\<bar> + epsilon example_b2) example_b2 = Inr example_b2a"
  by (simp add: set_priority_def get_def example_b2_def example_b2a_def Let_def)

lemma set_priority_example_2:
  "set_priority 0 (\<bar>-2\<bar> + epsilon example_b2a) example_b2a = Inr example_b4"
  by (simp add: set_priority_def get_def example_b2a_def example_b4_def Let_def)

lemma set_priority_example_3:
  "set_priority (Suc 0) (\<bar>-2\<bar> + epsilon example_b2a) example_b2a = Inr example_b6"
  by (simp add: set_priority_def get_def example_b2a_def example_b6_def Let_def)

lemma set_priorities_example:
  "set_priorities [0, 0] [1, -2] example_b2 = Inr example_b4"
  by (simp only: set_priorities.simps set_priority_example_1 set_priority_example_2
      bind_exn_def sum.case)

lemma set_priorities_example_2:
  "set_priorities [0, Suc 0] [1, -2] example_b2 = Inr example_b6"
  by (simp only: set_priorities.simps set_priority_example_1 set_priority_example_3
      bind_exn_def sum.case)

lemma example_r2s_fields:
  "core example_r2s = example_b2" "sampled example_r2s = [1, 0]" "stale example_r2s = []"
  by (simp_all add: example_r2s_def)

lemma update_priorities_example:
  "update_priorities [0, 0] [1, -2] example_r2s = Inr example_r4"
proof -
  have "update_priorities [0, 0] [1, -2] example_r2s = Inr (example_r2s\<lparr>core := example_b4\<rparr>)"
    unfolding update_priorities_def example_r2s_fields set_priorities_example
    by (simp add: bind_exn_def)
  then show ?thesis by (simp add: example_r2s_def example_r4_def)
qed

lemma update_priorities_example_2:
  "update_priorities [0, Suc 0] [1, -2] example_r2s = Inr example_r6"
proof -
  have "update_priorities [0, Suc 0] [1, -2] example_r2s
        = Inr (example_r2s\<lparr>core := example_b6\<rparr>)"
    unfolding update_priorities_def example_r2s_fields set_priorities_example_2
    by (simp add: bind_exn_def)
  then show ?thesis by (simp add: example_r2s_def example_r6_def)
qed

text \<open>
  How the example buffer comes to hold a stale slot: two stores into the fresh buffer, a
  batch of two, and a third store, which overwrites slot 0 of the batch.
\<close>

lemma new_replay_buffer_example: "new_replay_buffer 2 1 1 (1/100) = Inr example_r0"
  by (simp add: new_replay_buffer_def new_buffer_example bind_exn_def example_r0_def)

lemma replay_store_example_1: "replay_store example_t1 example_r0 = Inr example_r1"
proof -
  have c: "core example_r0 = example_b0" "sampled example_r0 = []" "stale example_r0 = []"
    by (simp_all add: example_r0_def)
  show ?thesis
    unfolding replay_store_def Let_def c store_example_1
    by (simp add: bind_exn_def example_r1_def)
qed

lemma replay_store_example_2: "replay_store example_t2 example_r1 = Inr example_r2"
proof -
  have c: "core example_r1 = example_b1" "sampled example_r1 = []" "stale example_r1 = []"
    by (simp_all add: example_r1_def)
  show ?thesis
    unfolding replay_store_def Let_def c store_example_2
    by (simp add: bind_exn_def example_r2_def)
qed

lemma replay_store_example_3: "replay_store example_t3 example_r2s = Inr example_r3"
proof -
  have w: "write_cursor example_b2 mod capacity example_b2 = 0"
    by (simp add: example_b2_def)
  show ?thesis
    unfolding replay_store_def Let_def example_r2s_fields w store_example_3
    by (simp add: bind_exn_def example_r3_def)
qed

lemma update_priorities_example_stale:
  "update_priorities [0] [5] example_r3 = Inl UnknownSlot"
  by (simp add: update_priorities_def example_r3_def)

text \<open>
  The training step never gets to its call of \<open>update_priorities\<close> (line 161): with
  collaborators that all succeed and a \<open>sample_batch\<close> that returns nine values, the
  count of such calls is as before.
\<close>

lemma fine_tune_counting:
  "fine_tune counting_env goal counting_trainer = (Inl TypeError, counting_trainer)"
  by (simp add: fine_tune_cases counting_env_def counting_trainer_def bind_exn_def)

text \<open>
  C1 as stated fails. Two pairs of one call name slot 0: after
  \<open>update_priorities([0, 0], [1, -2])\<close> its priority is \<open>|-2| + epsilon\<close>, not the
  \<open>|1| + epsilon\<close> of the first pair. Slot 0 of a batch has been overwritten by a store:
  \<open>update_priorities([0], [5])\<close> raises UnknownSlot and the priority stays 1. And the
  training step raises before its call of \<open>update_priorities\<close>, which is never made.
\<close>

theorem update_priorities_every_pair_counterexample:
  "update_priorities [0, 0] [1, -2] example_r2s = Inr example_r4
   \<and> priority (core example_r4) ! 0 = 201/100
   \<and> priority (core example_r4) ! 0 \<noteq> \<bar>1\<bar> + epsilon (core example_r2s)
   \<and> replay_store example_t3 example_r2s = Inr example_r3
   \<and> update_priorities [0] [5] example_r3 = Inl UnknownSlot
   \<and> priority (core example_r3) ! 0 \<noteq> \<bar>5\<bar> + epsilon (core example_r3)
   \<and> fine_tune counting_env (Tensor [0]) counting_trainer = (Inl TypeError, counting_trainer)
   \<and> pri_buffer counting_trainer = 0"
proof (intro conjI)
  show "update_priorities [0, 0] [1, -2] example_r2s = Inr example_r4"
    by (rule update_priorities_example)
  show "priority (core example_r4) ! 0 = 201/100"
    by (simp add: example_r4_def example_b4_def)
  show "priority (core example_r4) ! 0 \<noteq> \<bar>1\<bar> + epsilon (core example_r2s)"
    by (simp add: example_r4_def example_b4_def example_r2s_def example_b2_def)
  show "replay_store example_t3 example_r2s = Inr example_r3"
    by (rule replay_store_example_3)
  show "update_priorities [0] [5] example_r3 = Inl UnknownSlot"
    by (rule update_priorities_example_stale)
  show "priority (core example_r3) ! 0 \<noteq> \<bar>5\<bar> + epsilon (core example_r3)"
    by (simp add: example_r3_def example_b3_def)
  show "fine_tune counting_env (Tensor [0]) counting_trainer = (Inl TypeError, counting_trainer)"
    by (rule fine_tune_counting)
  show "pri_buffer counting_trainer = 0"
    by (simp add: counting_trainer_def)
qed

theorem update_priorities_single_pair_witness:
  "buffer_inv (core example_r2s)
   \<and> list_all (\<lambda>s. s < buf_size (core example_r2s) \<and> s \<notin> set (stale example_r2s)) [0, Suc 0]
   \<and> Suc 0 < length [0, Suc 0] \<and> Suc 0 < length [1, -2 :: real]
   \<and> [0, Suc 0] ! 0 \<noteq> [0, Suc 0] ! Suc 0
   \<and> update_priorities [0, Suc 0] [1, -2] example_r2s = Inr example_r6
   \<and> set_priorities [0, Suc 0] [1, -2] (core example_r2s) = Inr (core example_r6)
   \<and> priority (core example_r6) ! ([0, Suc 0] ! Suc 0) = \<bar>[1, -2] ! Suc 0\<bar> + epsilon (core example_r2s)
   \<and> priority (core example_r6) ! Suc 0 = 201/100
   \<and> 0 < priority (core example_r6) ! ([0, Suc 0] ! Suc 0)
   \<and> sampled example_r6 = sampled example_r2s \<and> stale example_r6 = stale example_r2s
   \<and> buffer_inv (core example_r6)"
proof -
  have c: "core example_r2s = example_b2" by (simp add: example_r2s_def)
  have h: "buffer_inv (core example_r2s)"
    "\<forall>s\<in>set [0, Suc 0]. s < buf_size (core example_r2s) \<and> s \<notin> set (stale example_r2s)"
    "Suc 0 < length [0, Suc 0]" "Suc 0 < length [1, -2 :: real]"
    "\<forall>j<length [0, Suc 0]. j < length [1, -2 :: real] \<longrightarrow> j \<noteq> Suc 0
        \<longrightarrow> [0, Suc 0] ! j \<noteq> [0, Suc 0] ! Suc 0"
    by (simp_all add: c buffer_inv_example_b2 less_Suc_eq)
      (simp add: example_r2s_def example_b2_def)
  from update_priorities_single_pair [OF h]
  obtain rb' where u: "update_priorities [0, Suc 0] [1, -2] example_r2s = Inr rb'"
    and p: "set_priorities [0, Suc 0] [1, -2] (core example_r2s) = Inr (core rb')"
      "priority (core rb') ! ([0, Suc 0] ! Suc 0)
              = \<bar>[1, -2] ! Suc 0\<bar> + epsilon (core example_r2s)"
      "0 < priority (core rb') ! ([0, Suc 0] ! Suc 0)"
      "sampled rb' = sampled example_r2s" "stale rb' = stale example_r2s"
      "buffer_inv (core rb')"
    by blast
  have e: "rb' = example_r6"
    using u by (simp only: update_priorities_example_2 sum.inject)
  have v: "priority (core example_r6) ! Suc 0 = 201/100"
    by (simp add: example_r6_def example_b6_def)
  show ?thesis
    using h(1) p update_priorities_example_2 v unfolding e
    by (simp add: example_r2s_def example_b2_def)
qed

subsection \<open>The call of store\<close>

lemma init_buffer_recorded:
  "init_buffer recording_env v p a r nv np d recording_trainer
   = (Inr NoneValue, recording_trainer\<lparr>pri_buffer := [v, p, a, r, nv, np, d]\<rparr>)"
  by (simp add: init_buffer_def bind_st_def on_pri_buffer_def pure_st_def recording_env_def)

text \<open>
  C6 as stated fails: the call of line 145 hands \<open>store\<close> seven positional arguments, not five: an
  environment that records them shows it, and against the five parameters
  \<open>(state, action, reward, next_state, done)\<close> the call is a TypeError.
\<close>

theorem init_buffer_five_fields_counterexample:
  "pri_buffer (snd (init_buffer recording_env (Tensor [1]) (Tensor [2]) (Tensor [3])
       (PyFloat (1/2)) (Tensor [4]) (Tensor [5]) (PyBool False) recording_trainer))
     = [Tensor [1], Tensor [2], Tensor [3], PyFloat (1/2), Tensor [4], Tensor [5], PyBool False]
   \<and> length (pri_buffer (snd (init_buffer recording_env (Tensor [1]) (Tensor [2]) (Tensor [3])
       (PyFloat (1/2)) (Tensor [4]) (Tensor [5]) (PyBool False) recording_trainer))) \<noteq> 5
   \<and> bind_args spec_store_sig
        [Tensor [1], Tensor [2], Tensor [3], PyFloat (1/2), Tensor [4], Tensor [5], PyBool False]
        [] = Inl TypeError"
  by (simp add: init_buffer_recorded spec_store_sig_def bind_args_def bind_exn_def)

text \<open>
  What \<open>init_buffer\<close> does, whatever the buffer: one call of \<open>store\<close>, with the seven
  arguments in the order of line 145 and no keyword; what the call returns is dropped.
\<close>

lemma init_buffer_call:
  "init_buffer env vision proprioception action reward next_vision next_proprioception done
     self
   = (case buffer_store env
            [vision, proprioception, action, reward, next_vision, next_proprioception, done]
            [] (pri_buffer self) of
        (Inl e, b) \<Rightarrow> (Inl e, self\<lparr>pri_buffer := b\<rparr>)
      | (Inr none, b) \<Rightarrow> (Inr NoneValue, self\<lparr>pri_buffer := b\<rparr>))"
  by (simp add: init_buffer_def bind_st_def on_pri_buffer_def pure_st_def
      split: prod.splits sum.splits)

text \<open>What \<open>store\<close> leaves in the slot it writes.\<close>

lemma store_written:
  assumes "buffer_inv buf" and "slot = write_cursor buf mod capacity buf"
  shows "\<exists>buf'. store t buf = Inr buf'
     \<and> get buf' slot = Inr t
     \<and> priority buf' ! slot
         = (if buf_size buf = 0 then max 1 (epsilon buf) else max_priority buf)
     \<and> write_cursor buf' = (write_cursor buf + 1) mod capacity buf
     \<and> buf_size buf' = min (buf_size buf + 1) (capacity buf)
     \<and> buffer_inv buf'"
proof -
  let ?p = "max (if buf_size buf = 0 then 1 else max_priority buf) (epsilon buf)"
  have inv: "buffer_inv buf" by (rule assms(1))
  have c: "0 < capacity buf" and lt: "length (transitions buf) = capacity buf"
    and lp: "length (priority buf) = capacity buf" and wc: "write_cursor buf < capacity buf"
    using inv by (auto simp: buffer_inv_def)
  have sl: "slot < capacity buf" using assms(2) c by simp
  obtain buf' where s: "store t buf = Inr buf'" and inv': "buffer_inv buf'"
    using inv_store [OF inv] by blast
  have e: "buf' = buf\<lparr>transitions := (transitions buf)[slot := Some t],
             priority := (priority buf)[slot := ?p],
             tree := set_leaf (tree buf) slot (?p powr alpha buf),
             max_priority := max (max_priority buf) ?p,
             write_cursor := (write_cursor buf + 1) mod capacity buf,
             buf_size := min (buf_size buf + 1) (capacity buf)\<rparr>"
    using s store_explicit [OF c lt inv_max_priority_nonneg [OF inv] assms(2) refl, of t]
    by simp
  have g: "get buf' slot = Inr t"
    using sl lt by (simp add: e get_def)
  have pr: "priority buf' ! slot = ?p"
    using sl lp by (simp add: e)
  have "?p = (if buf_size buf = 0 then max 1 (epsilon buf) else max_priority buf)"
  proof (cases "buf_size buf = 0")
    case False
    then have "epsilon buf \<le> priority buf ! 0 \<and> priority buf ! 0 \<le> max_priority buf"
      using inv by (simp add: buffer_inv_def)
    then show ?thesis using False by simp
  qed simp
  then have pr': "priority buf' ! slot
         = (if buf_size buf = 0 then max 1 (epsilon buf) else max_priority buf)"
    using pr by simp
  have "write_cursor buf' = (write_cursor buf + 1) mod capacity buf"
    "buf_size buf' = min (buf_size buf + 1) (capacity buf)"
    by (simp_all add: e)
  then show ?thesis using s g pr' inv' by blast
qed

lemma replay_store_core:
  assumes "store t (core rb) = Inr buf'"
  shows "\<exists>rb'. replay_store t rb = Inr rb' \<and> core rb' = buf'"
  using assms by (simp add: replay_store_def bind_exn_def Let_def)

lemma store_call_core:
  assumes "store \<lparr>tr_state = state, tr_action = action, tr_reward = reward,
                  tr_next_state = next_state, tr_done = done\<rparr> (core rb) = Inr buf'"
  shows "\<exists>rb'. store_call state action reward next_state done rb = (Inr NoneValue, rb')
              \<and> core rb' = buf'"
  using replay_store_core [OF assms] by (auto simp: store_call_def)

text \<open>The loop makes one call of \<open>store\<close> for each of its steps, in their order.\<close>

lemma step_transitions_length: "length (step_transitions env_step n w) = n"
  by (induction n arbitrary: w) (auto split: prod.splits)

lemma interaction_loop_stores:
  assumes "buffer_inv (core rb)"
  shows "\<exists>w' rb'. interaction_loop env_step n w rb = (Inr w', rb')
     \<and> store_all (step_transitions env_step n w) (core rb) = Inr (core rb')
     \<and> buffer_inv (core rb')"
  using assms
proof (induction n arbitrary: w rb)
  case 0
  then show ?case by simp
next
  case (Suc n)
  obtain state action reward next_state flag w1
    where st: "env_step w = ((state, action, reward, next_state, flag), w1)"
    by (metis prod.exhaust)
  let ?t = "\<lparr>tr_state = state, tr_action = action, tr_reward = reward,
             tr_next_state = next_state, tr_done = flag\<rparr>"
  obtain buf1 where s: "store ?t (core rb) = Inr buf1" and inv1: "buffer_inv buf1"
    using inv_store [OF Suc.prems] by blast
  obtain rb1 where c: "store_call state action reward next_state flag rb = (Inr NoneValue, rb1)"
    and c1: "core rb1 = buf1"
    using store_call_core [OF s] by blast
  have "buffer_inv (core rb1)" using inv1 c1 by simp
  from Suc.IH [OF this, of w1]
  obtain w' rb' where l: "interaction_loop env_step n w1 rb1 = (Inr w', rb')"
    and a: "store_all (step_transitions env_step n w1) (core rb1) = Inr (core rb')"
    and inv': "buffer_inv (core rb')"
    by blast
  have "interaction_loop env_step (Suc n) w rb = (Inr w', rb')"
    using st c l by simp
  moreover have "store_all (step_transitions env_step (Suc n) w) (core rb) = Inr (core rb')"
    using st s a c1 by (simp add: bind_exn_def)
  ultimately show ?case using inv' by blast
qed

text \<open>
  C6 (amended). \<open>init_buffer\<close> invokes \<open>store\<close> once, with seven positional arguments:
  the vision frame and the proprioception vector of the state, the action, the reward,
  the vision frame and the proprioception vector of the next state, and the flag.
  \<open>store\<close> itself takes the five fields \<open>(state, action, reward, next_state, done)\<close> of one
  transition and is called once per environment step: a loop of \<open>n\<close> steps makes the
  \<open>n\<close> calls of its \<open>n\<close> transitions, in their order. On a buffer state that the
  operations produce, a call writes the transition at the slot
  \<open>write_cursor mod capacity\<close> and assigns it the current \<open>max_priority()\<close>, or, when the
  buffer is empty, the default 1.0 (the floor \<open>epsilon\<close> if that is larger); it moves
  the cursor on by one modulo the capacity and the size by one up to the capacity, and
  returns no value.
\<close>

theorem store_five_fields:
  assumes "buffer_inv (core rb)" and "slot = write_cursor (core rb) mod capacity (core rb)"
    and "buffer_inv (core rb0)"
  shows "init_buffer env vision proprioception action r next_vision next_proprioception d self
       = (case buffer_store env
                [vision, proprioception, action, r, next_vision, next_proprioception, d]
                [] (pri_buffer self) of
            (Inl e, b) \<Rightarrow> (Inl e, self\<lparr>pri_buffer := b\<rparr>)
          | (Inr none, b) \<Rightarrow> (Inr NoneValue, self\<lparr>pri_buffer := b\<rparr>))
     \<and> (\<exists>rb'. store_call state a reward next_state done rb = (Inr NoneValue, rb')
          \<and> store \<lparr>tr_state = state, tr_action = a, tr_reward = reward,
                    tr_next_state = next_state, tr_done = done\<rparr> (core rb) = Inr (core rb')
          \<and> get (core rb') slot
              = Inr \<lparr>tr_state = state, tr_action = a, tr_reward = reward,
                     tr_next_state = next_state, tr_done = done\<rparr>
          \<and> priority (core rb') ! slot
              = (if buf_size (core rb) = 0 then max 1 (epsilon (core rb))
                 else max_priority (core rb))
          \<and> write_cursor (core rb') = (write_cursor (core rb) + 1) mod capacity (core rb)
          \<and> buf_size (core rb') = min (buf_size (core rb) + 1) (capacity (core rb))
          \<and> buffer_inv (core rb'))
     \<and> (\<exists>w' rb'. interaction_loop env_step n w rb0 = (Inr w', rb')
          \<and> length (step_transitions env_step n w) = n
          \<and> store_all (step_transitions env_step n w) (core rb0) = Inr (core rb'))"
proof (intro conjI)
  show "init_buffer env vision proprioception action r next_vision next_proprioception d self
       = (case buffer_store env
                [vision, proprioception, action, r, next_vision, next_proprioception, d]
                [] (pri_buffer self) of
            (Inl e, b) \<Rightarrow> (Inl e, self\<lparr>pri_buffer := b\<rparr>)
          | (Inr none, b) \<Rightarrow> (Inr NoneValue, self\<lparr>pri_buffer := b\<rparr>))"
    by (rule init_buffer_call)
next
  let ?t = "\<lparr>tr_state = state, tr_action = a, tr_reward = reward,
             tr_next_state = next_state, tr_done = done\<rparr>"
  from store_written [OF assms(1,2), of ?t]
  obtain buf' where s: "store ?t (core rb) = Inr buf'"
    and f: "get buf' slot = Inr ?t"
      "priority buf' ! slot
         = (if buf_size (core rb) = 0 then max 1 (epsilon (core rb)) else max_priority (core rb))"
      "write_cursor buf' = (write_cursor (core rb) + 1) mod capacity (core rb)"
      "buf_size buf' = min (buf_size (core rb) + 1) (capacity (core rb))"
      "buffer_inv buf'"
    by blast
  obtain rb' where "store_call state a reward next_state done rb = (Inr NoneValue, rb')"
    and "core rb' = buf'"
    using store_call_core [OF s] by blast
  then show "\<exists>rb'. store_call state a reward next_state done rb = (Inr NoneValue, rb')
          \<and> store ?t (core rb) = Inr (core rb')
          \<and> get (core rb') slot = Inr ?t
          \<and> priority (core rb') ! slot
              = (if buf_size (core rb) = 0 then max 1 (epsilon (core rb))
                 else max_priority (core rb))
          \<and> write_cursor (core rb') = (write_cursor (core rb) + 1) mod capacity (core rb)
          \<and> buf_size (core rb') = min (buf_size (core rb) + 1) (capacity (core rb))
          \<and> buffer_inv (core rb')"
    using s f by blast
next
  show "\<exists>w' rb'. interaction_loop env_step n w rb0 = (Inr w', rb')
          \<and> length (step_transitions env_step n w) = n
          \<and> store_all (step_transitions env_step n w) (core rb0) = Inr (core rb')"
    using interaction_loop_stores [OF assms(3), of env_step n w]
      step_transitions_length [of env_step n w]
    by auto
qed

lemma buffer_inv_example_b0: "buffer_inv example_b0"
  by (simp add: buffer_inv_def example_b0_def all_less_2)

lemma buffer_inv_example_b7: "buffer_inv example_b7"
  by (simp add: buffer_inv_def example_b7_def all_less_2)

lemma store_example_7: "store example_t1 example_b7 = Inr example_b8"
  by (simp add: example_b7_def example_b8_def store_def set_priority_def put_def get_def
      bind_exn_def Let_def)

lemma store_call_example:
  "store_call 1 10 0 2 False example_r7 = (Inr NoneValue, example_r8)"
proof -
  have t: "\<lparr>tr_state = 1, tr_action = 10, tr_reward = 0, tr_next_state = 2, tr_done = False\<rparr>
           = example_t1"
    by (simp add: example_t1_def)
  have c: "core example_r7 = example_b7" "sampled example_r7 = [1]" "stale example_r7 = []"
    by (simp_all add: example_r7_def)
  have w: "write_cursor example_b7 mod capacity example_b7 = 1"
    by (simp add: example_b7_def)
  have r: "replay_store example_t1 example_r7 = Inr example_r8"
    unfolding replay_store_def Let_def c w store_example_7
    by (simp add: bind_exn_def example_r8_def)
  show ?thesis unfolding store_call_def t r by simp
qed

lemma example_step_values:
  "example_step (Suc 0) = ((1, 10, 0, 2, False), 2)"
  "example_step 2 = ((2, 20, 1, 3, False), 3)"
  by (simp_all add: example_step_def)

lemma step_transitions_example:
  "step_transitions example_step 2 (Suc 0) = [example_t1, example_t2]"
proof -
  have "step_transitions example_step (Suc (Suc 0)) (Suc 0) = [example_t1, example_t2]"
    unfolding step_transitions.simps example_step_values prod.case example_t1_def example_t2_def
    by (rule refl)
  then show ?thesis by (simp add: numeral_2_eq_2)
qed

lemma store_call_example_1:
  "store_call 1 10 0 2 False example_r0 = (Inr NoneValue, example_r1)"
proof -
  have t: "\<lparr>tr_state = 1, tr_action = 10, tr_reward = 0, tr_next_state = 2, tr_done = False\<rparr>
           = example_t1"
    by (simp add: example_t1_def)
  show ?thesis unfolding store_call_def t replay_store_example_1 by simp
qed

lemma store_call_example_2:
  "store_call 2 20 1 3 False example_r1 = (Inr NoneValue, example_r2)"
proof -
  have t: "\<lparr>tr_state = 2, tr_action = 20, tr_reward = 1, tr_next_state = 3, tr_done = False\<rparr>
           = example_t2"
    by (simp add: example_t2_def)
  show ?thesis unfolding store_call_def t replay_store_example_2 by simp
qed

lemma interaction_loop_example:
  "interaction_loop example_step 2 (Suc 0) example_r0 = (Inr 3, example_r2)"
proof -
  have "interaction_loop example_step (Suc (Suc 0)) (Suc 0) example_r0 = (Inr 3, example_r2)"
    unfolding interaction_loop.simps example_step_values prod.case store_call_example_1
      store_call_example_2 sum.case
    by (rule refl)
  then show ?thesis by (simp add: numeral_2_eq_2)
qed

theorem store_five_fields_witness:
  "buffer_inv (core example_r7) \<and> Suc 0 = write_cursor (core example_r7) mod capacity (core example_r7)
   \<and> buffer_inv (core example_r0)
   \<and> buf_size (core example_r7) = 2 \<and> max_priority (core example_r7) = 3
   \<and> priority (core example_r7) ! Suc 0 = 1
   \<and> store_call 1 10 0 2 False example_r7 = (Inr NoneValue, example_r8)
   \<and> store example_t1 (core example_r7) = Inr (core example_r8)
   \<and> get (core example_r8) (Suc 0) = Inr example_t1
   \<and> priority (core example_r8) ! Suc 0 = 3
   \<and> write_cursor (core example_r8) = 0 \<and> buf_size (core example_r8) = 2
   \<and> buffer_inv (core example_r8)
   \<and> interaction_loop example_step 2 (Suc 0) example_r0 = (Inr 3, example_r2)
   \<and> step_transitions example_step 2 (Suc 0) = [example_t1, example_t2]
   \<and> store_all [example_t1, example_t2] (core example_r0) = Inr (core example_r2)
   \<and> buf_size (core example_r0) = 0 \<and> priority (core example_r2) = [1, 1]"
proof -
  have h: "buffer_inv (core example_r7)"
    "Suc 0 = write_cursor (core example_r7) mod capacity (core example_r7)"
    "buffer_inv (core example_r0)"
    by (simp_all add: example_r7_def example_r0_def buffer_inv_example_b7 buffer_inv_example_b0)
      (simp add: example_b7_def)
  note t = store_five_fields [OF h, of example_env "Tensor [1]" "Tensor [2]" "Tensor [3]"
      "PyFloat (1/2)" "Tensor [4]" "Tensor [5]" "PyBool False" example_trainer
      1 10 0 2 False example_step 2 "Suc 0"]
  from t obtain rb' where c: "store_call 1 10 0 2 False example_r7 = (Inr NoneValue, rb')"
    and inv: "buffer_inv (core rb')"
    by blast
  have e: "rb' = example_r8" using c unfolding store_call_example by simp
  have inv8: "buffer_inv (core example_r8)" using inv e by simp
  have vals: "buf_size (core example_r7) = 2" "max_priority (core example_r7) = 3"
    "priority (core example_r7) ! Suc 0 = 1"
    "get (core example_r8) (Suc 0) = Inr example_t1"
    "priority (core example_r8) ! Suc 0 = 3"
    "write_cursor (core example_r8) = 0" "buf_size (core example_r8) = 2"
    "buf_size (core example_r0) = 0" "priority (core example_r2) = [1, 1]"
    by (simp_all add: example_r7_def example_b7_def example_r8_def example_b8_def get_def
        example_r0_def example_b0_def example_r2_def example_b2_def)
  have st: "store example_t1 (core example_r7) = Inr (core example_r8)"
    by (simp add: example_r7_def example_r8_def store_example_7)
  have sa: "store_all [example_t1, example_t2] (core example_r0) = Inr (core example_r2)"
    by (simp add: example_r0_def example_r2_def store_example_1 store_example_2 bind_exn_def)
  show ?thesis
    using h(1,3) h(2) [symmetric] vals inv8 st sa
    by (simp only: store_call_example interaction_loop_example step_transitions_example
        simp_thms)
qed

subsection \<open>Sampling and importance weights\<close>

lemma fold_max_props:
  fixes x :: real
  shows "x \<le> fold max xs x \<and> (\<forall>y\<in>set xs. y \<le> fold max xs x)
   \<and> (fold max xs x = x \<or> fold max xs x \<in> set xs)"
proof (induction xs arbitrary: x)
  case Nil
  then show ?case by simp
next
  case (Cons a xs)
  have 1: "max a x \<le> fold max xs (max a x)"
    and 2: "\<forall>y\<in>set xs. y \<le> fold max xs (max a x)"
    and 3: "fold max xs (max a x) = max a x \<or> fold max xs (max a x) \<in> set xs"
    using Cons.IH [of "max a x"] by auto
  from 1 have x: "x \<le> fold max xs (max a x)" and a: "a \<le> fold max xs (max a x)" by auto
  have mx: "max a x = a \<or> max a x = x" by (simp add: max_def)
  have e: "fold max (a # xs) x = fold max xs (max a x)" by simp
  show ?case unfolding e using x a 2 3 mx by auto
qed

lemma max_list_Inr:
  assumes "max_list ws = Inr m"
  shows "m \<in> set ws \<and> (\<forall>w\<in>set ws. w \<le> m)"
proof (cases ws)
  case Nil
  then show ?thesis using assms by simp
next
  case (Cons x xs)
  then have m: "m = fold max xs x" using assms by simp
  show ?thesis using fold_max_props [of x xs] by (auto simp: Cons m)
qed

lemma elem_le_sum_list:
  fixes xs :: "real list"
  assumes "\<forall>x\<in>set xs. 0 \<le> x" and "y \<in> set xs"
  shows "y \<le> sum_list xs"
  using assms
proof (induction xs)
  case Nil
  then show ?case by simp
next
  case (Cons a xs)
  have "0 \<le> sum_list xs" using Cons.prems(1) by (simp add: sum_list_nonneg)
  then show ?case using Cons by auto
qed

lemma inv_leaves_nonneg:
  assumes "buffer_inv buf"
  shows "\<forall>v\<in>set (leaf_values (tree buf)). 0 \<le> v"
  using assms by (auto simp: buffer_inv_def)

lemma inv_total_pos:
  assumes "buffer_inv buf" and "0 < buf_size buf"
  shows "0 < tree_total (tree buf)"
proof -
  have e: "0 < epsilon buf" and p0: "epsilon buf \<le> priority buf ! 0"
    and len: "0 < length (priority buf)"
    using assms by (auto simp: buffer_inv_def)
  then have pos: "0 < (priority buf ! 0) powr alpha buf" by simp
  have mem: "(priority buf ! 0) powr alpha buf \<in> set (leaf_values (tree buf))"
    using assms(1) len by (auto simp: buffer_inv_def)
  have "(priority buf ! 0) powr alpha buf \<le> sum_list (leaf_values (tree buf))"
    by (rule elem_le_sum_list [OF inv_leaves_nonneg [OF assms(1)] mem])
  then have "0 < sum_list (leaf_values (tree buf))"
    using pos by linarith
  then show ?thesis
    using assms(1) total_sum_list [of "tree buf"] by (simp add: buffer_inv_def)
qed

lemma inv_drawn:
  assumes "buffer_inv buf" and "0 < buf_size buf" and "0 \<le> u" and "u < 1"
    and "i = sample_one (tree buf) (u * tree_total (tree buf))"
  shows "i < buf_size buf \<and> 0 < (priority buf ! i) powr alpha buf"
proof -
  have t: "0 < tree_total (tree buf)" using inv_total_pos [OF assms(1,2)] .
  have u0: "0 \<le> u * tree_total (tree buf)"
    and u1: "u * tree_total (tree buf) < tree_total (tree buf)"
    using t assms(3,4) by auto
  have ok: "sums_ok (tree buf)" and lc: "leaves (tree buf) = capacity buf"
    and lp: "length (priority buf) = capacity buf"
    and lv: "leaf_values (tree buf) = map (\<lambda>p. p powr alpha buf) (priority buf)"
    using assms(1) by (auto simp: buffer_inv_def)
  have s: "i < leaves (tree buf) \<and> 0 < leaf_values (tree buf) ! i"
    unfolding assms(5)
    by (rule sample_one_positive [OF ok inv_leaves_nonneg [OF assms(1)] u0 u1])
  then have ic: "i < capacity buf" using lc by simp
  have pos: "0 < (priority buf ! i) powr alpha buf"
    using s ic lp by (simp add: lv)
  have "i < buf_size buf"
  proof (rule ccontr)
    assume "\<not> i < buf_size buf"
    then have "priority buf ! i = 0" using assms(1) ic by (simp add: buffer_inv_def)
    then show False using pos by simp
  qed
  then show ?thesis using pos by simp
qed

lemma raw_weight_pos:
  assumes "buffer_inv buf" and "0 < buf_size buf" and "0 < (priority buf ! i) powr alpha buf"
  shows "0 < raw_weight buf i"
proof -
  have "0 < tree_total (tree buf)" using inv_total_pos [OF assms(1,2)] .
  then have "0 < real (buf_size buf) * sampling_probability buf i"
    using assms(2,3) by (simp add: sampling_probability_def)
  then have "real (buf_size buf) * sampling_probability buf i \<noteq> 0"
    by linarith
  then show ?thesis
    by (simp add: raw_weight_def)
qed



text \<open>
  C3. For a buffer state that the operations produce and uniform values of \<open>[0, 1)\<close>,
  every batch that \<open>sample_batch\<close> returns has importance weights that all lie in
  \<open>(0, 1]\<close>, the largest of them is exactly 1, there are \<open>batch_size\<close> of them, and each
  is \<open>(N * P(i)) ^ (-beta)\<close> divided by the largest such value of the batch, with
  \<open>P(i) = priority[i] ^ alpha / total()\<close> and \<open>N = size\<close>.
\<close>

theorem sample_batch_weights:
  assumes "buffer_inv buf" and "\<forall>k. 0 \<le> rng k \<and> rng k < 1"
    and "sample_batch batch_size rng buf = Inr batch"
  shows "list_all (\<lambda>w. 0 < w \<and> w \<le> 1) (importance_weights batch)
     \<and> Max (set (importance_weights batch)) = 1
     \<and> length (importance_weights batch) = batch_size
     \<and> (\<exists>m. max_list (map (raw_weight buf) (slot_ids batch)) = Inr m
          \<and> importance_weights batch
              = map (\<lambda>i. (real (buf_size buf)
                          * ((priority buf ! i) powr alpha buf / tree_total (tree buf)))
                         powr (- beta buf) / m)
                  (slot_ids batch))"
proof -
  let ?drawn = "map (\<lambda>k. sample_one (tree buf) (rng k * tree_total (tree buf))) [0..<batch_size]"
  have sz: "0 < buf_size buf"
    using assms(3) by (auto simp: sample_batch_def split: if_splits)
  obtain ts m where ts: "collect (get buf) ?drawn = Inr ts"
    and m: "max_list (map (raw_weight buf) ?drawn) = Inr m"
    and b: "batch = \<lparr>states = map tr_state ts, actions = map tr_action ts,
                 rewards = map tr_reward ts, next_states = map tr_next_state ts,
                 dones = map tr_done ts,
                 importance_weights = map (\<lambda>i. raw_weight buf i / m) ?drawn,
                 slot_ids = ?drawn\<rparr>"
    using assms(3) sz
    by (auto simp: sample_batch_def bind_exn_def Let_def split: sum.splits)
  have posk: "0 < raw_weight buf (sample_one (tree buf) (rng k * tree_total (tree buf)))" for k
    using inv_drawn [OF assms(1) sz _ _ refl, of "rng k"] assms(2)
      raw_weight_pos [OF assms(1) sz]
    by simp
  then have pos: "0 < raw_weight buf i" if "i \<in> set ?drawn" for i
    using that by auto
  have mm: "m \<in> set (map (raw_weight buf) ?drawn)"
    and le: "\<forall>w\<in>set (map (raw_weight buf) ?drawn). w \<le> m"
    using max_list_Inr [OF m] by auto
  then obtain j where j: "j \<in> set ?drawn" and mj: "m = raw_weight buf j" by auto
  have mpos: "0 < m" using pos [OF j] mj by simp
  have ws: "importance_weights batch = map (\<lambda>i. raw_weight buf i / m) ?drawn"
    by (simp add: b)
  have all: "\<forall>w\<in>set (importance_weights batch). 0 < w \<and> w \<le> 1"
    using pos le mpos by (auto simp: ws)
  have one: "1 \<in> set (importance_weights batch)"
    using j mj mpos by (force simp: ws)
  have "Max (set (importance_weights batch)) = 1"
    using all one by (intro Max_eqI) auto
  moreover have "length (importance_weights batch) = batch_size" by (simp add: ws)
  moreover have "importance_weights batch
              = map (\<lambda>i. (real (buf_size buf)
                          * ((priority buf ! i) powr alpha buf / tree_total (tree buf)))
                         powr (- beta buf) / m)
                  (slot_ids batch)"
    by (simp add: b raw_weight_def sampling_probability_def)
  moreover have "max_list (map (raw_weight buf) (slot_ids batch)) = Inr m"
    using m by (simp add: b)
  ultimately show ?thesis using all by (simp add: list_all_iff)
qed


lemma buffer_inv_example_b5: "buffer_inv example_b5"
  by (simp add: buffer_inv_def example_b5_def all_less_2)

lemma example_rng_range: "\<forall>k. 0 \<le> example_rng k \<and> example_rng k < 1"
  by (simp add: example_rng_def)

lemma example_drawn:
  "map (\<lambda>k. sample_one (tree example_b5) (example_rng k * tree_total (tree example_b5))) [0..<2]
   = [0, 1]"
proof -
  have "[0..<2] = [0, Suc 0]" by (simp add: numeral_2_eq_2)
  then show ?thesis by (simp add: example_b5_def example_rng_def)
qed

lemma example_raw_weights:
  "raw_weight example_b5 0 = 2/3" "raw_weight example_b5 (Suc 0) = 2"
  by (simp_all add: raw_weight_def sampling_probability_def example_b5_def powr_minus)

lemma example_get:
  "get example_b5 0 = Inr example_t1" "get example_b5 (Suc 0) = Inr example_t2"
  by (simp_all add: get_def example_b5_def)

lemma sample_batch_example: "sample_batch 2 example_rng example_b5 = Inr example_batch"
proof -
  have sz: "buf_size example_b5 \<noteq> 0" by (simp add: example_b5_def)
  have c: "collect (get example_b5) [0, 1] = Inr [example_t1, example_t2]"
    by (simp add: example_get bind_exn_def)
  have m: "max_list (map (raw_weight example_b5) [0, 1]) = Inr 2"
    by (simp add: example_raw_weights)
  show ?thesis
    unfolding sample_batch_def Let_def example_drawn
    by (simp add: sz example_get m bind_exn_def example_raw_weights example_batch_def
        example_t1_def example_t2_def)
qed

theorem sample_batch_weights_witness:
  "buffer_inv example_b5
   \<and> sample_batch 2 example_rng example_b5 = Inr example_batch
   \<and> importance_weights example_batch = [1/3, 1]
   \<and> list_all (\<lambda>w. 0 < w \<and> w \<le> 1) (importance_weights example_batch)
   \<and> Max (set (importance_weights example_batch)) = 1
   \<and> length (importance_weights example_batch) = 2"
  using sample_batch_weights [OF buffer_inv_example_b5 example_rng_range sample_batch_example]
    buffer_inv_example_b5 sample_batch_example
  by (simp add: example_batch_def)

subsection \<open>The call of sample_batch\<close>

text \<open>
  The call of line 150 and the parameter of section 6: \<open>sample_batch()\<close> passes no
  argument, so that against a required \<open>batch_size\<close> it is a TypeError, and it unpacks
  nine values, so that on a result of seven sequences \<open>fine_tune\<close> is a ValueError.
\<close>

lemma fine_tune_recorded:
  "fine_tune recording_env goal recording_trainer = (Inl ValueError, recording_trainer)"
  by (simp add: fine_tune_cases recording_env_def recording_trainer_def bind_exn_def)

lemma fine_tune_call_of_sample_batch:
  "bind_args spec_sample_batch_sig [] [] = Inl TypeError
   \<and> buffer_sample_batch recording_env [] [] [] = (Inr (Tuple (replicate 7 (Tuple []))), [])
   \<and> len (Tuple (replicate 7 (Tuple []))) = Inr 7
   \<and> fine_tune recording_env (Tensor [0]) recording_trainer
       = (Inl ValueError, recording_trainer)"
proof (intro conjI)
  show "bind_args spec_sample_batch_sig [] [] = Inl TypeError"
    by (simp add: spec_sample_batch_sig_def bind_args_def bind_exn_def)
  show "buffer_sample_batch recording_env [] [] [] = (Inr (Tuple (replicate 7 (Tuple []))), [])"
    by (simp add: recording_env_def)
  show "len (Tuple (replicate 7 (Tuple []))) = Inr 7"
    by (simp add: len_def bind_exn_def)
  show "fine_tune recording_env (Tensor [0]) recording_trainer
        = (Inl ValueError, recording_trainer)"
    by (rule fine_tune_recorded)
qed

subsection \<open>The batch\<close>





lemma example_drawn_2:
  "map (\<lambda>k. sample_one (tree example_b2) (example_rng k * tree_total (tree example_b2))) [0..<2]
   = [0, 1]"
proof -
  have "[0..<2] = [0, Suc 0]" by (simp add: numeral_2_eq_2)
  then show ?thesis by (simp add: example_b2_def example_rng_def)
qed

lemma sample_batch_example_2: "sample_batch 2 example_rng example_b2 = Inr example_batch2"
proof -
  have sz: "buf_size example_b2 \<noteq> 0" by (simp add: example_b2_def)
  have g: "get example_b2 0 = Inr example_t1" "get example_b2 (Suc 0) = Inr example_t2"
    by (simp_all add: get_def example_b2_def)
  have w: "raw_weight example_b2 0 = 1" "raw_weight example_b2 (Suc 0) = 1"
    by (simp_all add: raw_weight_def sampling_probability_def example_b2_def)
  show ?thesis
    unfolding sample_batch_def Let_def example_drawn_2
    by (simp add: sz g w bind_exn_def example_batch2_def example_t1_def example_t2_def)
qed

text \<open>The batch that makes slot 0 of the example a sampled slot, stale after the third store.\<close>

lemma replay_sample_batch_example_2:
  "replay_sample_batch 2 example_rng example_r2 = Inr (example_batch2, example_r2s)"
  by (simp add: replay_sample_batch_def example_r2_def example_r2s_def sample_batch_example_2
      bind_exn_def example_batch2_def)


subsection \<open>The construction of the buffer\<close>

text \<open>
  C7 as stated fails: the call of line 40 gives no positional argument and the two keywords \<open>alpha\<close> and
  \<open>beta\<close>: with a constructor whose four parameters are all required, it is a
  TypeError.
\<close>

theorem pri_buffer_construction_counterexample:
  "pri_buffer_args = []
   \<and> map_of pri_buffer_kwargs ''capacity'' = None
   \<and> map_of pri_buffer_kwargs ''epsilon'' = None
   \<and> bind_args (buffer_sig None None None None) pri_buffer_args pri_buffer_kwargs
       = Inl TypeError"
  by (simp add: pri_buffer_args_def pri_buffer_kwargs_def buffer_sig_def bind_args_def
      bind_exn_def)

text \<open>
  C7 (amended). The construction of the buffer at line 40 supplies \<open>alpha = 0.6\<close> and
  \<open>beta = 0.4\<close> and nothing else: whatever the defaults of the constructor are, the
  call binds \<open>alpha\<close> and \<open>beta\<close> to these two values and \<open>capacity\<close> and \<open>epsilon\<close>
  to their defaults, and it is a TypeError when either of the two has none.
\<close>

theorem pri_buffer_construction:
  "init_pri_buffer env
     = PrioritizedReplayBuffer env [] [(''alpha'', PyFloat 0.6), (''beta'', PyFloat 0.4)]
   \<and> bind_args (buffer_sig capacity_default alpha_default beta_default epsilon_default)
         pri_buffer_args pri_buffer_kwargs
       = (case (capacity_default, epsilon_default) of
            (Some c, Some e) \<Rightarrow>
              Inr [(''capacity'', c), (''alpha'', PyFloat 0.6), (''beta'', PyFloat 0.4),
                   (''epsilon'', e)]
          | _ \<Rightarrow> Inl TypeError)"
  by (simp add: init_pri_buffer_def pri_buffer_args_def pri_buffer_kwargs_def buffer_sig_def
      bind_args_def bind_exn_def split: option.splits)


end
